theory Spec2Isabelle
  imports Complex_Main "HOL-Library.Word"
begin

unbundle bit_operations_syntax

section \<open>Data model of package vector\<close>

text \<open>
  Go's \<open>int\<close> and \<open>uint\<close> are taken at their 64-bit width (GOARCH=amd64, the platform the
  source's own comments measure on); \<open>int32\<close>, \<open>uint32\<close>, \<open>uint16\<close> and \<open>uint8\<close> are words
  of their width. Arithmetic on them wraps around; comparisons of signed values read the
  word with \<open>sint\<close>.
\<close>

type_synonym go_int = "64 word"
type_synonym go_uint = "64 word"

text \<open>
  \<open>f32.Vec2\<close> is a pair of \<open>float32\<close>. The operations modelled here only store
  coordinates and hand them on (\<open>Reset\<close>, \<open>MoveTo\<close>, \<open>LineTo\<close>, \<open>ClosePath\<close>, \<open>Pen\<close>); a
  coordinate is carried as a real number. The \<open>float32\<close> arithmetic of \<open>QuadTo\<close> and
  \<open>CubeTo\<close>, which rounds after every operation, is not part of the model.
\<close>

type_synonym vec2 = "real \<times> real"

text \<open>\<open>image.Point\<close> and \<open>image.Rectangle\<close>.\<close>

record point =
  X :: go_int
  Y :: go_int

record rectangle =
  Min' :: point
  Max' :: point

text \<open>\<open>draw.Op\<close>: the source's comment on the field \<open>DrawOp\<close> fixes \<open>draw.Over\<close> as the zero value.\<close>

datatype Op = Over | Src

text \<open>
  The ways a call can fail: the run-time panics of a slice expression, of an index
  expression and of \<open>make\<close>, and the allocator's fatal error.
\<close>

datatype panic = SliceBoundsOutOfRange | IndexOutOfRange | MakeSliceLenOutOfRange | OutOfMemory

text \<open>
  A Go slice: the backing array from the slice's start up to its capacity, and the
  length. \<open>cap s\<close> is \<open>length (arr s)\<close>; the elements of the slice are \<open>view s\<close>.
  The nil slice has an empty backing array and length 0.
\<close>

record 'a slice =
  arr :: "'a list"
  len :: nat

definition cap :: "'a slice \<Rightarrow> nat" where
  "cap s = length (arr s)"

definition view :: "'a slice \<Rightarrow> 'a list" where
  "view s = take (len s) (arr s)"

definition nil_slice :: "'a slice" where
  "nil_slice = \<lparr>arr = [], len = 0\<rparr>"

text \<open>
  The limits of the Go runtime that \<open>make\<close> meets: the largest size in bytes of one
  allocation, \<open>maxAlloc\<close>, and the bytes the allocator can still provide. Both belong to
  the environment of a call and are parameters of the model.
\<close>

record runtime =
  maxAlloc :: int
  heap :: int

text \<open>
  \<open>make([]T, n)\<close> for the 4-byte elements of \<open>bufF32\<close> and \<open>bufU32\<close>. The runtime's
  \<open>makeslice\<close> panics (len out of range) when \<open>n\<close> is negative, when the size \<open>4 * n\<close>
  overflows the machine word or when it exceeds \<open>maxAlloc\<close>; the allocation is fatal (out
  of memory) when the bytes are not there; otherwise the result is a fresh zeroed array of
  length and capacity \<open>n\<close>.
\<close>

definition make_slice :: "runtime \<Rightarrow> go_int \<Rightarrow> panic + ('a::zero) slice" where
  "make_slice rt n =
     (if sint n < 0 \<or> 2 ^ 64 \<le> 4 * sint n \<or> maxAlloc rt < 4 * sint n
      then Inl MakeSliceLenOutOfRange
      else if heap rt < 4 * sint n then Inl OutOfMemory
      else Inr \<lparr>arr = replicate (nat (sint n)) 0, len = nat (sint n)\<rparr>)"

text \<open>\<open>s[:n]\<close>: the bounds are \<open>0 \<le> n \<le> cap(s)\<close>, anything else panics.\<close>

definition reslice :: "'a slice \<Rightarrow> go_int \<Rightarrow> panic + 'a slice" where
  "reslice s n =
     (if sint n < 0 \<or> int (cap s) < sint n then Inl SliceBoundsOutOfRange
      else Inr (s\<lparr>len := nat (sint n)\<rparr>))"

text \<open>\<open>for i := range s { s[i] = 0 }\<close>\<close>

fun zero_range :: "nat list \<Rightarrow> ('a::zero) list \<Rightarrow> 'a list" where
  "zero_range [] a = a"
| "zero_range (i # is) a = zero_range is (a[i := 0])"

definition zero_fill :: "('a::zero) slice \<Rightarrow> 'a slice" where
  "zero_fill s = s\<lparr>arr := zero_range [0..<len s] (arr s)\<rparr>"

record rasterizer =
  bufF32 :: "real slice"
  bufU32 :: "32 word slice"
  useFloatingPointMath :: bool
  size' :: point
  first :: vec2
  pen :: vec2
  DrawOp :: Op

text \<open>The zero value \<open>Rasterizer{}\<close>: nil slices, false, zero points, the zero \<open>draw.Op\<close>.\<close>

definition Rasterizer_zero :: rasterizer where
  "Rasterizer_zero =
     \<lparr>bufF32 = nil_slice, bufU32 = nil_slice, useFloatingPointMath = False,
      size' = \<lparr>X = 0, Y = 0\<rparr>, first = (0, 0), pen = (0, 0), DrawOp = Over\<rparr>"

section \<open>Coordinate utilities\<close>

definition floatingPointMathThreshold :: go_int where
  "floatingPointMathThreshold = 2048"

text \<open>\<open>clamp(i, width int32) uint\<close>; the conversion \<open>uint(i)\<close> of an \<open>int32\<close> sign-extends.\<close>

definition clamp :: "32 word \<Rightarrow> 32 word \<Rightarrow> go_uint" where
  "clamp i width =
     (if i <s 0 then 0
      else if i <s width then scast i
      else scast width)"

section \<open>Construction, reset and queries\<close>

definition setUseFloatingPointMath :: "runtime \<Rightarrow> bool \<Rightarrow> rasterizer \<Rightarrow> panic + rasterizer" where
  "setUseFloatingPointMath rt b z0 =
     (let z = z0\<lparr>useFloatingPointMath := b\<rparr>;
          n = X (size' z) * Y (size' z)
      in if useFloatingPointMath z then
           (if int (cap (bufF32 z)) < sint n then
              (case make_slice rt n of
                 Inl e \<Rightarrow> Inl e
               | Inr s \<Rightarrow> Inr (z\<lparr>bufF32 := s\<rparr>))
            else case reslice (bufF32 z) n of
                   Inl e \<Rightarrow> Inl e
                 | Inr s \<Rightarrow> Inr (z\<lparr>bufF32 := zero_fill s\<rparr>))
         else
           (if int (cap (bufU32 z)) < sint n then
              (case make_slice rt n of
                 Inl e \<Rightarrow> Inl e
               | Inr s \<Rightarrow> Inr (z\<lparr>bufU32 := s\<rparr>))
            else case reslice (bufU32 z) n of
                   Inl e \<Rightarrow> Inl e
                 | Inr s \<Rightarrow> Inr (z\<lparr>bufU32 := zero_fill s\<rparr>)))"

definition Reset :: "runtime \<Rightarrow> go_int \<Rightarrow> go_int \<Rightarrow> rasterizer \<Rightarrow> panic + rasterizer" where
  "Reset rt w h z =
     setUseFloatingPointMath rt
       (floatingPointMathThreshold <s w \<or> floatingPointMathThreshold <s h)
       (z\<lparr>size' := \<lparr>X = w, Y = h\<rparr>, first := (0, 0), pen := (0, 0), DrawOp := Over\<rparr>)"

definition NewRasterizer :: "runtime \<Rightarrow> go_int \<Rightarrow> go_int \<Rightarrow> panic + rasterizer" where
  "NewRasterizer rt w h = Reset rt w h Rasterizer_zero"

text \<open>The capacity of the buffer that \<open>Reset(w, h)\<close> makes the active one.\<close>

definition active_cap :: "go_int \<Rightarrow> go_int \<Rightarrow> rasterizer \<Rightarrow> nat" where
  "active_cap w h z =
     (if floatingPointMathThreshold <s w \<or> floatingPointMathThreshold <s h then cap (bufF32 z)
      else cap (bufU32 z))"

definition Size :: "rasterizer \<Rightarrow> point" where
  "Size z = size' z"

definition Bounds :: "rasterizer \<Rightarrow> rectangle" where
  "Bounds z = \<lparr>Min' = \<lparr>X = 0, Y = 0\<rparr>, Max' = size' z\<rparr>"

definition Pen :: "rasterizer \<Rightarrow> vec2" where
  "Pen z = pen z"

section \<open>The kernels that are not among the sources\<close>

text \<open>
  \<open>vector.go\<close> calls the edge deposition (\<open>fixedLineTo\<close>, \<open>floatingLineTo\<close>) and the
  accumulation kernels (\<open>fixedAccumulateMask\<close>, \<open>floatingAccumulateOpSrc\<close>, their SIMD
  variants, and so on) of \<open>raster_fixed.go\<close>, \<open>raster_floating.go\<close> and the \<open>acc_*\<close> files.
  They are parameters of the model, collected in one record. A kernel receives the
  elements of the slices it is called with and returns the new elements of the slice it
  writes; \<open>haveFixedAccumulateSIMD\<close> and \<open>haveFloatingAccumulateSIMD\<close> are the two
  capability flags.
\<close>

record kernels =
  fixedDeposit :: "point \<Rightarrow> vec2 \<Rightarrow> vec2 \<Rightarrow> 32 word list \<Rightarrow> 32 word list"
  floatingDeposit :: "point \<Rightarrow> vec2 \<Rightarrow> vec2 \<Rightarrow> real list \<Rightarrow> real list"
  haveFixedAccumulateSIMD :: bool
  haveFloatingAccumulateSIMD :: bool
  fixedAccumulateMask :: "32 word list \<Rightarrow> 32 word list"
  fixedAccumulateMaskSIMD :: "32 word list \<Rightarrow> 32 word list"
  floatingAccumulateMask :: "32 word list \<Rightarrow> real list \<Rightarrow> 32 word list"
  floatingAccumulateMaskSIMD :: "32 word list \<Rightarrow> real list \<Rightarrow> 32 word list"
  fixedAccumulateOpOver :: "8 word list \<Rightarrow> 32 word list \<Rightarrow> 8 word list"
  fixedAccumulateOpOverSIMD :: "8 word list \<Rightarrow> 32 word list \<Rightarrow> 8 word list"
  floatingAccumulateOpOver :: "8 word list \<Rightarrow> real list \<Rightarrow> 8 word list"
  floatingAccumulateOpOverSIMD :: "8 word list \<Rightarrow> real list \<Rightarrow> 8 word list"
  fixedAccumulateOpSrc :: "8 word list \<Rightarrow> 32 word list \<Rightarrow> 8 word list"
  fixedAccumulateOpSrcSIMD :: "8 word list \<Rightarrow> 32 word list \<Rightarrow> 8 word list"
  floatingAccumulateOpSrc :: "8 word list \<Rightarrow> real list \<Rightarrow> 8 word list"
  floatingAccumulateOpSrcSIMD :: "8 word list \<Rightarrow> real list \<Rightarrow> 8 word list"

text \<open>Writing the elements a kernel returns back into the slice it was given.\<close>

definition store :: "'a slice \<Rightarrow> 'a list \<Rightarrow> 'a slice" where
  "store s xs = \<lparr>arr = xs @ drop (len s) (arr s), len = length xs\<rparr>"

section \<open>Path commands\<close>

definition MoveTo :: "vec2 \<Rightarrow> rasterizer \<Rightarrow> rasterizer" where
  "MoveTo a z = z\<lparr>first := a, pen := a\<rparr>"

text \<open>
  Modelled from the spec: \<open>fixedLineTo\<close> (\<open>raster_fixed.go\<close>) is not among the sources.
  Section 4.2 of the specification: \<open>LineTo(b)\<close> emits an edge from \<open>pen\<close> to \<open>b\<close> into the
  active buffer and sets \<open>pen = b\<close>. The edge deposition is the kernel parameter; it is
  given the size, the two end points and the elements of \<open>bufU32\<close>.
\<close>

definition fixedLineTo :: "kernels \<Rightarrow> vec2 \<Rightarrow> rasterizer \<Rightarrow> rasterizer" where
  "fixedLineTo K b z =
     z\<lparr>pen := b,
       bufU32 := store (bufU32 z) (fixedDeposit K (size' z) (pen z) b (view (bufU32 z)))\<rparr>"

text \<open>
  Modelled from the spec: \<open>floatingLineTo\<close> (\<open>raster_floating.go\<close>) is not among the
  sources. As \<open>fixedLineTo\<close>, on \<open>bufF32\<close>.
\<close>

definition floatingLineTo :: "kernels \<Rightarrow> vec2 \<Rightarrow> rasterizer \<Rightarrow> rasterizer" where
  "floatingLineTo K b z =
     z\<lparr>pen := b,
       bufF32 := store (bufF32 z) (floatingDeposit K (size' z) (pen z) b (view (bufF32 z)))\<rparr>"

definition LineTo :: "kernels \<Rightarrow> vec2 \<Rightarrow> rasterizer \<Rightarrow> rasterizer" where
  "LineTo K b z = (if useFloatingPointMath z then floatingLineTo K b z else fixedLineTo K b z)"

definition ClosePath :: "kernels \<Rightarrow> rasterizer \<Rightarrow> rasterizer" where
  "ClosePath K z = LineTo K (first z) z"

section \<open>Drawing\<close>

text \<open>
  The images of the standard library. \<open>Color.RGBA()\<close> gives four \<open>uint32\<close> values;
  \<open>color.RGBA64\<close> has four \<open>uint16\<close> fields. \<open>image.Alpha\<close> and \<open>image.RGBA\<close> both consist
  of \<open>Pix\<close>, \<open>Stride\<close> and \<open>Rect\<close>; their \<open>PixOffset\<close> differ in the bytes per pixel, and
  their \<open>Bounds()\<close> is \<open>Rect\<close>.
\<close>

type_synonym rgba32 = "32 word \<times> 32 word \<times> 32 word \<times> 32 word"

record RGBA64 =
  R :: "16 word"
  G :: "16 word"
  B :: "16 word"
  A :: "16 word"

record pix_image =
  Pix :: "8 word list"
  Stride :: go_int
  Rect :: rectangle

definition PixOffset_Alpha :: "pix_image \<Rightarrow> go_int \<Rightarrow> go_int \<Rightarrow> go_int" where
  "PixOffset_Alpha p x y = (y - Y (Min' (Rect p))) * Stride p + (x - X (Min' (Rect p))) * 1"

definition PixOffset_RGBA :: "pix_image \<Rightarrow> go_int \<Rightarrow> go_int \<Rightarrow> go_int" where
  "PixOffset_RGBA p x y = (y - Y (Min' (Rect p))) * Stride p + (x - X (Min' (Rect p))) * 4"

text \<open>
  The source image is an \<open>*image.Uniform\<close> or any other \<open>image.Image\<close>, read through
  \<open>At(x, y).RGBA()\<close>. The destination is an \<open>*image.Alpha\<close>, an \<open>*image.RGBA\<close> or any other
  \<open>draw.Image\<close>; the generic path reaches it through the interface methods \<open>At\<close> (followed
  by \<open>RGBA()\<close>) and \<open>Set\<close>, which are a parameter of the model.
\<close>

datatype src_image = Uniform rgba32 | SrcImage "go_int \<Rightarrow> go_int \<Rightarrow> rgba32"

definition src_At :: "src_image \<Rightarrow> go_int \<Rightarrow> go_int \<Rightarrow> rgba32" where
  "src_At src x y = (case src of Uniform c \<Rightarrow> c | SrcImage f \<Rightarrow> f x y)"

datatype 'd dst_image = DstAlpha pix_image | DstRGBA pix_image | DstOther 'd

record 'd draw_image =
  At :: "'d dst_image \<Rightarrow> go_int \<Rightarrow> go_int \<Rightarrow> rgba32"
  Set :: "'d dst_image \<Rightarrow> go_int \<Rightarrow> go_int \<Rightarrow> RGBA64 \<Rightarrow> 'd dst_image"

text \<open>Sequencing of steps that may panic, and a \<open>for\<close> loop over a list of indices.\<close>

definition bindE :: "panic + 'a \<Rightarrow> ('a \<Rightarrow> panic + 'b) \<Rightarrow> panic + 'b" where
  "bindE m f = (case m of Inl e \<Rightarrow> Inl e | Inr a \<Rightarrow> f a)"

fun foldE :: "('i \<Rightarrow> 's \<Rightarrow> panic + 's) \<Rightarrow> 'i list \<Rightarrow> 's \<Rightarrow> panic + 's" where
  "foldE f [] s = Inr s"
| "foldE f (i # is) s = bindE (f i s) (foldE f is)"

text \<open>The values of \<open>x\<close> in \<open>for x := 0; x < x1; x++\<close>.\<close>

definition for_range :: "go_int \<Rightarrow> go_int list" where
  "for_range x1 = map of_nat [0..<nat (sint x1)]"

text \<open>\<open>xs[i]\<close>, \<open>xs[i] = v\<close> and the start of \<open>xs[off:]\<close>, with Go's bounds checks.\<close>

definition idx :: "'a list \<Rightarrow> go_int \<Rightarrow> panic + 'a" where
  "idx xs i =
     (if sint i < 0 \<or> int (length xs) \<le> sint i then Inl IndexOutOfRange
      else Inr (xs ! nat (sint i)))"

definition upd :: "'a list \<Rightarrow> go_int \<Rightarrow> 'a \<Rightarrow> panic + 'a list" where
  "upd xs i v =
     (if sint i < 0 \<or> int (length xs) \<le> sint i then Inl IndexOutOfRange
      else Inr (xs[nat (sint i) := v]))"

definition slice_from :: "'a list \<Rightarrow> go_int \<Rightarrow> panic + nat" where
  "slice_from xs off =
     (if sint off < 0 \<or> int (length xs) < sint off then Inl SliceBoundsOutOfRange
      else Inr (nat (sint off)))"

definition accumulateMask :: "runtime \<Rightarrow> kernels \<Rightarrow> rasterizer \<Rightarrow> panic + rasterizer" where
  "accumulateMask rt K z =
     (if useFloatingPointMath z then
        (let n = X (size' z) * Y (size' z)
         in bindE (if int (cap (bufU32 z)) < sint n then make_slice rt n
                   else reslice (bufU32 z) n)
              (\<lambda>u. Inr (z\<lparr>bufU32 := store u
                          ((if haveFloatingAccumulateSIMD K then floatingAccumulateMaskSIMD K
                            else floatingAccumulateMask K) (view u) (view (bufF32 z)))\<rparr>)))
      else
        Inr (z\<lparr>bufU32 := store (bufU32 z)
                 ((if haveFixedAccumulateSIMD K then fixedAccumulateMaskSIMD K
                   else fixedAccumulateMask K) (view (bufU32 z)))\<rparr>))"

definition rasterizeDstAlphaSrcOpaqueOpOver ::
  "runtime \<Rightarrow> kernels \<Rightarrow> pix_image \<Rightarrow> rectangle \<Rightarrow> rasterizer \<Rightarrow> panic + rasterizer \<times> pix_image" where
  "rasterizeDstAlphaSrcOpaqueOpOver rt K dst r z =
     (if r = Rect dst \<and> r = Bounds z then
        Inr (z, dst\<lparr>Pix :=
          (if useFloatingPointMath z then
             (if haveFloatingAccumulateSIMD K then floatingAccumulateOpOverSIMD K
              else floatingAccumulateOpOver K) (Pix dst) (view (bufF32 z))
           else
             (if haveFixedAccumulateSIMD K then fixedAccumulateOpOverSIMD K
              else fixedAccumulateOpOver K) (Pix dst) (view (bufU32 z)))\<rparr>)
      else
        bindE (accumulateMask rt K z) (\<lambda>z1.
        bindE (slice_from (Pix dst) (PixOffset_Alpha dst (X (Min' r)) (Y (Min' r)))) (\<lambda>off.
        bindE (foldE (\<lambda>y. foldE (\<lambda>x pix.
                  bindE (idx (view (bufU32 z1)) (y * X (size' z1) + x)) (\<lambda>ma.
                  let i = y * Stride dst + x;
                      a = 0xffff - ma
                  in bindE (idx pix i) (\<lambda>p.
                     upd pix i (ucast (drop_bit 8 ((ucast p :: 32 word) * 0x101 * a div 0xffff + ma)))))
                 ) (for_range (X (Max' r) - X (Min' r))))
               (for_range (Y (Max' r) - Y (Min' r))) (drop off (Pix dst))) (\<lambda>pix.
        Inr (z1, dst\<lparr>Pix := take off (Pix dst) @ pix\<rparr>)))))"

definition rasterizeDstAlphaSrcOpaqueOpSrc ::
  "runtime \<Rightarrow> kernels \<Rightarrow> pix_image \<Rightarrow> rectangle \<Rightarrow> rasterizer \<Rightarrow> panic + rasterizer \<times> pix_image" where
  "rasterizeDstAlphaSrcOpaqueOpSrc rt K dst r z =
     (if r = Rect dst \<and> r = Bounds z then
        Inr (z, dst\<lparr>Pix :=
          (if useFloatingPointMath z then
             (if haveFloatingAccumulateSIMD K then floatingAccumulateOpSrcSIMD K
              else floatingAccumulateOpSrc K) (Pix dst) (view (bufF32 z))
           else
             (if haveFixedAccumulateSIMD K then fixedAccumulateOpSrcSIMD K
              else fixedAccumulateOpSrc K) (Pix dst) (view (bufU32 z)))\<rparr>)
      else
        bindE (accumulateMask rt K z) (\<lambda>z1.
        bindE (slice_from (Pix dst) (PixOffset_Alpha dst (X (Min' r)) (Y (Min' r)))) (\<lambda>off.
        bindE (foldE (\<lambda>y. foldE (\<lambda>x pix.
                  bindE (idx (view (bufU32 z1)) (y * X (size' z1) + x)) (\<lambda>ma.
                  upd pix (y * Stride dst + x) (ucast (drop_bit 8 ma)))
                 ) (for_range (X (Max' r) - X (Min' r))))
               (for_range (Y (Max' r) - Y (Min' r))) (drop off (Pix dst))) (\<lambda>pix.
        Inr (z1, dst\<lparr>Pix := take off (Pix dst) @ pix\<rparr>)))))"

text \<open>One channel of the uniform-source, RGBA-destination loops: \<open>pix[j] = ...\<close>.\<close>

definition rgba_over_channel ::
  "8 word list \<Rightarrow> go_int \<Rightarrow> 32 word \<Rightarrow> 32 word \<Rightarrow> 32 word \<Rightarrow> panic + 8 word list" where
  "rgba_over_channel pix j a s ma =
     bindE (idx pix j) (\<lambda>p.
       upd pix j (ucast (drop_bit 8 (((ucast p :: 32 word) * 0x101 * a + s * ma) div 0xffff))))"

definition rgba_src_channel :: "8 word list \<Rightarrow> go_int \<Rightarrow> 32 word \<Rightarrow> 32 word \<Rightarrow> panic + 8 word list" where
  "rgba_src_channel pix j s ma = upd pix j (ucast (drop_bit 8 (s * ma div 0xffff)))"

definition rasterizeDstRGBASrcUniformOpOver ::
  "runtime \<Rightarrow> kernels \<Rightarrow> pix_image \<Rightarrow> rectangle \<Rightarrow> rgba32 \<Rightarrow> rasterizer \<Rightarrow> panic + rasterizer \<times> pix_image" where
  "rasterizeDstRGBASrcUniformOpOver rt K dst r c z =
     (case c of (sr, sg, sb, sa) \<Rightarrow>
        bindE (accumulateMask rt K z) (\<lambda>z1.
        bindE (slice_from (Pix dst) (PixOffset_RGBA dst (X (Min' r)) (Y (Min' r)))) (\<lambda>off.
        bindE (foldE (\<lambda>y. foldE (\<lambda>x pix.
                  bindE (idx (view (bufU32 z1)) (y * X (size' z1) + x)) (\<lambda>ma.
                  let a = 0xffff - (sa * ma div 0xffff);
                      i = y * Stride dst + 4 * x
                  in bindE (rgba_over_channel pix (i + 0) a sr ma) (\<lambda>pix.
                     bindE (rgba_over_channel pix (i + 1) a sg ma) (\<lambda>pix.
                     bindE (rgba_over_channel pix (i + 2) a sb ma) (\<lambda>pix.
                     rgba_over_channel pix (i + 3) a sa ma))))
                 ) (for_range (X (Max' r) - X (Min' r))))
               (for_range (Y (Max' r) - Y (Min' r))) (drop off (Pix dst))) (\<lambda>pix.
        Inr (z1, dst\<lparr>Pix := take off (Pix dst) @ pix\<rparr>)))))"

definition rasterizeDstRGBASrcUniformOpSrc ::
  "runtime \<Rightarrow> kernels \<Rightarrow> pix_image \<Rightarrow> rectangle \<Rightarrow> rgba32 \<Rightarrow> rasterizer \<Rightarrow> panic + rasterizer \<times> pix_image" where
  "rasterizeDstRGBASrcUniformOpSrc rt K dst r c z =
     (case c of (sr, sg, sb, sa) \<Rightarrow>
        bindE (accumulateMask rt K z) (\<lambda>z1.
        bindE (slice_from (Pix dst) (PixOffset_RGBA dst (X (Min' r)) (Y (Min' r)))) (\<lambda>off.
        bindE (foldE (\<lambda>y. foldE (\<lambda>x pix.
                  bindE (idx (view (bufU32 z1)) (y * X (size' z1) + x)) (\<lambda>ma.
                  let i = y * Stride dst + 4 * x
                  in bindE (rgba_src_channel pix (i + 0) sr ma) (\<lambda>pix.
                     bindE (rgba_src_channel pix (i + 1) sg ma) (\<lambda>pix.
                     bindE (rgba_src_channel pix (i + 2) sb ma) (\<lambda>pix.
                     rgba_src_channel pix (i + 3) sa ma))))
                 ) (for_range (X (Max' r) - X (Min' r))))
               (for_range (Y (Max' r) - Y (Min' r))) (drop off (Pix dst))) (\<lambda>pix.
        Inr (z1, dst\<lparr>Pix := take off (Pix dst) @ pix\<rparr>)))))"

text \<open>
  The body of the loops of \<open>rasterizeOpOver\<close> and \<open>rasterizeOpSrc\<close>: the colour \<open>out\<close>
  computed from the source pixel, the destination pixel and the mask value \<open>ma\<close>, all in
  \<open>uint32\<close>, each channel narrowed by \<open>uint16(...)\<close>.
\<close>

definition opOver_out :: "rgba32 \<Rightarrow> rgba32 \<Rightarrow> 32 word \<Rightarrow> RGBA64" where
  "opOver_out s d ma =
     (case s of (sr, sg, sb, sa) \<Rightarrow> case d of (dr, dg, db, da) \<Rightarrow>
        let a = 0xffff - (sa * ma div 0xffff)
        in \<lparr>R = ucast ((dr * a + sr * ma) div 0xffff),
            G = ucast ((dg * a + sg * ma) div 0xffff),
            B = ucast ((db * a + sb * ma) div 0xffff),
            A = ucast ((da * a + sa * ma) div 0xffff)\<rparr>)"

definition opSrc_out :: "rgba32 \<Rightarrow> 32 word \<Rightarrow> RGBA64" where
  "opSrc_out s ma =
     (case s of (sr, sg, sb, sa) \<Rightarrow>
        \<lparr>R = ucast (sr * ma div 0xffff),
         G = ucast (sg * ma div 0xffff),
         B = ucast (sb * ma div 0xffff),
         A = ucast (sa * ma div 0xffff)\<rparr>)"

definition rasterizeOpOver ::
  "runtime \<Rightarrow> kernels \<Rightarrow> 'd draw_image \<Rightarrow> 'd dst_image \<Rightarrow> rectangle \<Rightarrow> src_image \<Rightarrow> point \<Rightarrow> rasterizer
     \<Rightarrow> panic + rasterizer \<times> 'd dst_image" where
  "rasterizeOpOver rt K I dst r src sp z =
     bindE (accumulateMask rt K z) (\<lambda>z1.
     bindE (foldE (\<lambda>y. foldE (\<lambda>x dst.
               let s = src_At src (X sp + x) (Y sp + y)
               in bindE (idx (view (bufU32 z1)) (y * X (size' z1) + x)) (\<lambda>ma.
                  let d = At I dst (X (Min' r) + x) (Y (Min' r) + y)
                  in Inr (Set I dst (X (Min' r) + x) (Y (Min' r) + y) (opOver_out s d ma)))
              ) (for_range (X (Max' r) - X (Min' r))))
            (for_range (Y (Max' r) - Y (Min' r))) dst) (\<lambda>dst.
     Inr (z1, dst)))"

definition rasterizeOpSrc ::
  "runtime \<Rightarrow> kernels \<Rightarrow> 'd draw_image \<Rightarrow> 'd dst_image \<Rightarrow> rectangle \<Rightarrow> src_image \<Rightarrow> point \<Rightarrow> rasterizer
     \<Rightarrow> panic + rasterizer \<times> 'd dst_image" where
  "rasterizeOpSrc rt K I dst r src sp z =
     bindE (accumulateMask rt K z) (\<lambda>z1.
     bindE (foldE (\<lambda>y. foldE (\<lambda>x dst.
               let s = src_At src (X sp + x) (Y sp + y)
               in bindE (idx (view (bufU32 z1)) (y * X (size' z1) + x)) (\<lambda>ma.
                  Inr (Set I dst (X (Min' r) + x) (Y (Min' r) + y) (opSrc_out s ma)))
              ) (for_range (X (Max' r) - X (Min' r))))
            (for_range (Y (Max' r) - Y (Min' r))) dst) (\<lambda>dst.
     Inr (z1, dst)))"

definition Draw_generic ::
  "runtime \<Rightarrow> kernels \<Rightarrow> 'd draw_image \<Rightarrow> 'd dst_image \<Rightarrow> rectangle \<Rightarrow> src_image \<Rightarrow> point \<Rightarrow> rasterizer
     \<Rightarrow> panic + rasterizer \<times> 'd dst_image" where
  "Draw_generic rt K I dst r src sp z =
     (if DrawOp z = Over then rasterizeOpOver rt K I dst r src sp z
      else rasterizeOpSrc rt K I dst r src sp z)"

definition Draw ::
  "runtime \<Rightarrow> kernels \<Rightarrow> 'd draw_image \<Rightarrow> 'd dst_image \<Rightarrow> rectangle \<Rightarrow> src_image \<Rightarrow> point \<Rightarrow> rasterizer
     \<Rightarrow> panic + rasterizer \<times> 'd dst_image" where
  "Draw rt K I dst r src sp z =
     (case src of
        Uniform c \<Rightarrow>
          (case c of (srcR, srcG, srcB, srcA) \<Rightarrow>
             (case dst of
                DstAlpha p \<Rightarrow>
                  if srcA = 0xffff then
                    bindE (if DrawOp z = Over then rasterizeDstAlphaSrcOpaqueOpOver rt K p r z
                           else rasterizeDstAlphaSrcOpaqueOpSrc rt K p r z)
                      (\<lambda>(z1, p1). Inr (z1, DstAlpha p1))
                  else Draw_generic rt K I dst r src sp z
              | DstRGBA p \<Rightarrow>
                  bindE (if DrawOp z = Over
                         then rasterizeDstRGBASrcUniformOpOver rt K p r (srcR, srcG, srcB, srcA) z
                         else rasterizeDstRGBASrcUniformOpSrc rt K p r (srcR, srcG, srcB, srcA) z)
                    (\<lambda>(z1, p1). Inr (z1, DstRGBA p1))
              | DstOther d \<Rightarrow> Draw_generic rt K I dst r src sp z))
      | SrcImage f \<Rightarrow> Draw_generic rt K I dst r src sp z)"

text \<open>
  The condition under which \<open>Draw\<close> reaches its last statement, the call of
  \<open>rasterizeOpOver\<close> or \<open>rasterizeOpSrc\<close>: the source is not an \<open>*image.Uniform\<close>, or the
  destination is neither an \<open>*image.Alpha\<close> nor an \<open>*image.RGBA\<close>, or it is an
  \<open>*image.Alpha\<close> and the uniform source is not fully opaque.
\<close>

definition generic_path :: "src_image \<Rightarrow> 'd dst_image \<Rightarrow> bool" where
  "generic_path src dst =
     (case src of
        Uniform c \<Rightarrow>
          (case c of (srcR, srcG, srcB, srcA) \<Rightarrow>
             (case dst of
                DstAlpha p \<Rightarrow> srcA \<noteq> 0xffff
              | DstRGBA p \<Rightarrow> False
              | DstOther d \<Rightarrow> True))
      | SrcImage f \<Rightarrow> True)"

section \<open>The operator formulas as the specification writes them\<close>

text \<open>
  Section 4.6 of the specification, with 16-bit channels and the mask \<open>ma\<close>:
  \<open>Over: out = src*ma/0xffff + dst*(0xffff - src.a*ma/0xffff)/0xffff\<close> and
  \<open>Src: out = src*ma/0xffff\<close>, read in integer arithmetic, every division truncating.
\<close>

definition Over_as_stated :: "nat \<Rightarrow> nat \<Rightarrow> nat \<Rightarrow> nat \<Rightarrow> nat" where
  "Over_as_stated src srca dst ma =
     src * ma div 0xffff + dst * (0xffff - srca * ma div 0xffff) div 0xffff"

definition Src_as_stated :: "nat \<Rightarrow> nat \<Rightarrow> nat" where
  "Src_as_stated src ma = src * ma div 0xffff"

text \<open>The same formula for \<open>Over\<close> read in exact arithmetic, no division truncating.\<close>

definition Over_as_stated_exact :: "rat \<Rightarrow> rat \<Rightarrow> rat \<Rightarrow> rat \<Rightarrow> rat" where
  "Over_as_stated_exact src srca dst ma =
     src * ma / 0xffff + dst * (0xffff - srca * ma / 0xffff) / 0xffff"

text \<open>
  The formula for \<open>Over\<close> with a single truncating division, applied to the sum of the two
  products.
\<close>

definition Over_amended :: "nat \<Rightarrow> nat \<Rightarrow> nat \<Rightarrow> nat \<Rightarrow> nat" where
  "Over_amended src srca dst ma = (dst * (0xffff - srca * ma div 0xffff) + src * ma) div 0xffff"

text \<open>
  What \<open>Color.RGBA()\<close> of the standard library promises: each value within \<open>[0, 0xffff]\<close>,
  and the colour alpha-premultiplied, so that no colour channel is above the alpha channel.
\<close>

definition sixteen_bit :: "rgba32 \<Rightarrow> bool" where
  "sixteen_bit c =
     (case c of (r, g, b, a) \<Rightarrow>
        unat r \<le> 0xffff \<and> unat g \<le> 0xffff \<and> unat b \<le> 0xffff \<and> unat a \<le> 0xffff)"

definition premultiplied :: "rgba32 \<Rightarrow> bool" where
  "premultiplied c =
     (case c of (r, g, b, a) \<Rightarrow>
        unat r \<le> unat a \<and> unat g \<le> unat a \<and> unat b \<le> unat a \<and> unat a \<le> 0xffff)"

text \<open>
  The pixel that the formulas give in exact integer arithmetic, as a \<open>color.RGBA64\<close>: under
  \<open>Over\<close> from the source pixel, the destination pixel and the mask value, under \<open>Src\<close> from
  the source pixel and the mask value.
\<close>

definition Over_pixel :: "rgba32 \<Rightarrow> rgba32 \<Rightarrow> 32 word \<Rightarrow> RGBA64" where
  "Over_pixel s d ma =
     (case s of (sr, sg, sb, sa) \<Rightarrow> case d of (dr, dg, db, da) \<Rightarrow>
        \<lparr>R = of_nat (Over_amended (unat sr) (unat sa) (unat dr) (unat ma)),
         G = of_nat (Over_amended (unat sg) (unat sa) (unat dg) (unat ma)),
         B = of_nat (Over_amended (unat sb) (unat sa) (unat db) (unat ma)),
         A = of_nat (Over_amended (unat sa) (unat sa) (unat da) (unat ma))\<rparr>)"

definition Src_pixel :: "rgba32 \<Rightarrow> rgba32 \<Rightarrow> 32 word \<Rightarrow> RGBA64" where
  "Src_pixel s d ma =
     (case s of (sr, sg, sb, sa) \<Rightarrow>
        \<lparr>R = of_nat (Src_as_stated (unat sr) (unat ma)),
         G = of_nat (Src_as_stated (unat sg) (unat ma)),
         B = of_nat (Src_as_stated (unat sb) (unat ma)),
         A = of_nat (Src_as_stated (unat sa) (unat ma))\<rparr>)"

text \<open>
  Section 4.6, step 2, of the specification: run \<open>accumulateMask\<close>, then iterate over the
  pixels of \<open>r\<close> and, for each, read \<open>src\<close> at \<open>sp + (x, y)\<close>, read \<open>dst\<close> at
  \<open>r.Min + (x, y)\<close>, compute the operator \<open>out\<close> using the mask value of the pixel, and
  write back; \<open>(x, y)\<close> is counted from the corner of \<open>r\<close>, row by row.
\<close>

definition generic_path_as_stated ::
  "(rgba32 \<Rightarrow> rgba32 \<Rightarrow> 32 word \<Rightarrow> RGBA64)
     \<Rightarrow> runtime \<Rightarrow> kernels \<Rightarrow> 'd draw_image \<Rightarrow> 'd dst_image \<Rightarrow> rectangle \<Rightarrow> src_image \<Rightarrow> point
     \<Rightarrow> rasterizer \<Rightarrow> panic + rasterizer \<times> 'd dst_image" where
  "generic_path_as_stated out rt K I dst r src sp z =
     bindE (accumulateMask rt K z) (\<lambda>z1.
     bindE (foldE (\<lambda>y. foldE (\<lambda>x dst.
               bindE (idx (view (bufU32 z1)) (y * X (size' z1) + x)) (\<lambda>ma.
                  Inr (Set I dst (X (Min' r) + x) (Y (Min' r) + y)
                         (out (src_At src (X sp + x) (Y sp + y))
                              (At I dst (X (Min' r) + x) (Y (Min' r) + y)) ma))))
              (for_range (X (Max' r) - X (Min' r))))
            (for_range (Y (Max' r) - Y (Min' r))) dst) (\<lambda>dst.
     Inr (z1, dst)))"

section \<open>Accumulation as the specification describes it\<close>

text \<open>
  The accumulation kernels (\<open>fixedAccumulateMask\<close>, \<open>fixedAccumulateOpSrc\<close> and their SIMD
  variants) are not among the sources. Section 4.5 of the specification: after the prefix
  sum and the coverage mapping every element of the buffer has a coverage value \<open>alpha\<close> in
  \<open>[0, 0xffff]\<close>. The coverage value of element \<open>i\<close> of a buffer is the parameter \<open>alpha\<close>
  below; a kernel is handed the two slices only.
\<close>

text \<open>
  Modelled from the spec: \<open>fixedAccumulateMask\<close> is not among the sources. Section 4.5:
  \<open>accumulateMask\<close> emits the coverage as a \<open>uint32\<close> mask into \<open>bufU32\<close>.
\<close>

definition spec_accumulateMask :: "(32 word list \<Rightarrow> nat \<Rightarrow> 32 word) \<Rightarrow> 32 word list \<Rightarrow> 32 word list" where
  "spec_accumulateMask alpha buf = map (alpha buf) [0..<length buf]"

text \<open>
  Modelled from the spec: \<open>fixedAccumulateOpSrc\<close> is not among the sources. Section 4.5:
  \<open>accumulateOpSrc(dst)\<close> writes \<open>alpha >> 8\<close> to an 8-bit destination, byte \<open>i\<close> of the
  destination for element \<open>i\<close> of the buffer.
\<close>

definition spec_accumulateOpSrc ::
  "(32 word list \<Rightarrow> nat \<Rightarrow> 32 word) \<Rightarrow> 8 word list \<Rightarrow> 32 word list \<Rightarrow> 8 word list" where
  "spec_accumulateOpSrc alpha dst src =
     foldl (\<lambda>d i. d[i := ucast (drop_bit 8 (alpha src i))]) dst [0..<length src]"

text \<open>
  Modelled from the spec: the kernels \<open>K\<close> with the fixed-point mask and \<open>Src\<close> kernels, scalar
  and SIMD (the specification wants them bit-identical), replaced by the two definitions
  above.
\<close>

definition spec_kernels :: "(32 word list \<Rightarrow> nat \<Rightarrow> 32 word) \<Rightarrow> kernels \<Rightarrow> kernels" where
  "spec_kernels alpha K =
     K\<lparr>fixedAccumulateMask := spec_accumulateMask alpha,
       fixedAccumulateMaskSIMD := spec_accumulateMask alpha,
       fixedAccumulateOpSrc := spec_accumulateOpSrc alpha,
       fixedAccumulateOpSrcSIMD := spec_accumulateOpSrc alpha\<rparr>"

section \<open>Test inputs\<close>

text \<open>
  A runtime: the allocation limit of \<open>2^48\<close> bytes of Go on amd64, and 1 GiB that the
  allocator can still provide.
\<close>

definition machine :: runtime where
  "machine = \<lparr>maxAlloc = 2 ^ 48, heap = 2 ^ 30\<rparr>"

text \<open>A rasterizer that has been used: a dirty buffer with spare capacity, a moved pen, \<open>Src\<close>.\<close>

definition dirty :: rasterizer where
  "dirty = \<lparr>bufF32 = nil_slice, bufU32 = \<lparr>arr = [1, 2, 3, 4, 5, 6, 7], len = 7\<rparr>,
            useFloatingPointMath = False, size' = \<lparr>X = 7, Y = 1\<rparr>, first = (1, 1), pen = (2, 5),
            DrawOp = Src\<rparr>"

text \<open>
  An 8-bit alpha destination that is a sub-image:
  \<open>image.NewAlpha(image.Rect(0, 0, 3, 2)).SubImage(image.Rect(0, 0, 2, 2))\<close> has the bounds
  \<open>(0,0)-(2,2)\<close>, the stride 3 of its parent and the parent's six bytes.
\<close>

definition sub_alpha :: pix_image where
  "sub_alpha =
     \<lparr>Pix = [0, 0, 0, 0, 0, 0], Stride = 3,
      Rect = \<lparr>Min' = \<lparr>X = 0, Y = 0\<rparr>, Max' = \<lparr>X = 2, Y = 2\<rparr>\<rparr>\<rparr>"

text \<open>The fully opaque uniform source, \<open>image.Opaque\<close>.\<close>

definition opaque :: src_image where
  "opaque = Uniform (0xffff, 0xffff, 0xffff, 0xffff)"

text \<open>A rasterizer in fixed-point mode with the operator \<open>Src\<close>, its size and the contents of \<open>bufU32\<close> given.\<close>

definition fixed_rasterizer :: "go_int \<Rightarrow> go_int \<Rightarrow> 32 word list \<Rightarrow> rasterizer" where
  "fixed_rasterizer w h buf =
     Rasterizer_zero\<lparr>bufU32 := \<lparr>arr = buf, len = length buf\<rparr>, size' := \<lparr>X = w, Y = h\<rparr>,
       DrawOp := Src\<rparr>"

text \<open>
  A destination that is neither an \<open>*image.Alpha\<close> nor an \<open>*image.RGBA\<close>: an image of
  \<open>color.RGBA64\<close> pixels, one for every point. \<open>At\<close> returns the four channels of the pixel
  widened to \<open>uint32\<close>, \<open>Set\<close> stores the colour.
\<close>

definition pixels :: "(go_int \<times> go_int \<Rightarrow> RGBA64) draw_image" where
  "pixels =
     \<lparr>At = (\<lambda>dst x y. case dst of
               DstOther f \<Rightarrow> (ucast (R (f (x, y))), ucast (G (f (x, y))), ucast (B (f (x, y))),
                               ucast (A (f (x, y))))
             | _ \<Rightarrow> (0, 0, 0, 0)),
      Set = (\<lambda>dst x y c. case dst of DstOther f \<Rightarrow> DstOther (f((x, y) := c)) | _ \<Rightarrow> dst)\<rparr>"

section \<open>Properties of reset, construction and the coordinate utilities\<close>

lemma scast_nonneg_unat:
  assumes "0 \<le> sint (x::32 word)"
  shows "unat (scast x :: 64 word) = nat (sint x)"
proof -
  have b: "sint x < 2 ^ 31" using sint_lt[of x] by simp
  have "uint (scast x :: 64 word) = take_bit LENGTH(64) (sint x)"
    by (simp only: scast_eq uint_word_of_int_eq)
  also have "\<dots> = sint x" using assms b by (simp add: take_bit_int_eq_self)
  finally show ?thesis by (simp add: unat_eq_nat_uint)
qed

lemma length_zero_range: "length (zero_range js a) = length a"
  by (induction js arbitrary: a) simp_all

lemma nth_zero_range:
  "j < length a \<Longrightarrow> zero_range js a ! j = (if j \<in> set js then 0 else a ! j)"
  by (induction js arbitrary: a) (auto simp: nth_list_update)

lemma view_zero_fill:
  assumes "len s \<le> cap s" and "x \<in> set (view (zero_fill s))"
  shows "x = 0"
proof -
  from assms(2) obtain j where j: "j < len s" "x = zero_range [0..<len s] (arr s) ! j"
    by (auto simp: view_def zero_fill_def in_set_conv_nth length_zero_range)
  with assms(1) show ?thesis by (simp add: nth_zero_range cap_def)
qed

lemma view_make_slice: "make_slice rt n = Inr s \<Longrightarrow> x \<in> set (view s) \<Longrightarrow> x = 0"
  by (auto simp: view_def make_slice_def split: if_splits)

lemma reslice_len: "reslice s n = Inr s' \<Longrightarrow> len s' \<le> cap s' \<and> len s' = nat (sint n) \<and> arr s' = arr s"
  by (auto simp: reslice_def cap_def split: if_splits)

lemma setUseFloatingPointMath_buf:
  assumes "setUseFloatingPointMath rt b z = Inr z'"
  shows "if b then (\<forall>x\<in>set (view (bufF32 z')). x = 0) else (\<forall>x\<in>set (view (bufU32 z')). x = 0)"
  using assms
  by (auto simp: setUseFloatingPointMath_def Let_def split: if_splits sum.splits
      dest!: reslice_len dest: view_make_slice view_zero_fill)

lemma setUseFloatingPointMath_frame:
  assumes "setUseFloatingPointMath rt b z = Inr z'"
  shows "useFloatingPointMath z' = b \<and> size' z' = size' z \<and> first z' = first z \<and> pen z' = pen z \<and> DrawOp z' = DrawOp z"
  using assms
  by (auto simp: setUseFloatingPointMath_def Let_def split: if_splits sum.splits)

text \<open>
  The outcome of \<open>setUseFloatingPointMath\<close>, by the product \<open>n\<close> of the size and the
  capacity \<open>c\<close> of the buffer it turns to.
\<close>

lemma setUseFloatingPointMath_outcome:
  fixes rt b z
  defines "n \<equiv> sint (X (size' z) * Y (size' z))"
    and "c \<equiv> int (if b then cap (bufF32 z) else cap (bufU32 z))"
  shows "(setUseFloatingPointMath rt b z = Inl SliceBoundsOutOfRange) = (n < 0)"
    and "(setUseFloatingPointMath rt b z = Inl MakeSliceLenOutOfRange)
           = (c < n \<and> (2 ^ 64 \<le> 4 * n \<or> maxAlloc rt < 4 * n))"
    and "(setUseFloatingPointMath rt b z = Inl OutOfMemory)
           = (c < n \<and> 4 * n < 2 ^ 64 \<and> 4 * n \<le> maxAlloc rt \<and> heap rt < 4 * n)"
    and "setUseFloatingPointMath rt b z \<noteq> Inl IndexOutOfRange"
    and "(\<exists>z'. setUseFloatingPointMath rt b z = Inr z')
           = (0 \<le> n \<and> (n \<le> c \<or> (4 * n < 2 ^ 64 \<and> 4 * n \<le> maxAlloc rt \<and> 4 * n \<le> heap rt)))"
  unfolding n_def c_def
  by (auto simp: setUseFloatingPointMath_def Let_def reslice_def make_slice_def
      split: if_splits sum.splits)

text \<open>
  Claim C9. For every \<open>i\<close> and every non-negative \<open>width\<close>, \<open>clamp(i, width)\<close> is \<open>i\<close>
  clamped into the closed interval from 0 to \<open>width\<close>: it is 0 when \<open>i < 0\<close>, \<open>i\<close> when
  \<open>0 \<le> i < width\<close>, and \<open>width\<close> when \<open>i \<ge> width\<close>.
\<close>
theorem clamp_into_width:
  assumes "0 \<le> sint width"
  shows "unat (clamp i width) =
           (if sint i < 0 then 0 else if sint i < sint width then nat (sint i) else nat (sint width))
         \<and> int (unat (clamp i width)) \<le> sint width"
proof -
  have c: "unat (clamp i width) =
           (if sint i < 0 then 0 else if sint i < sint width then nat (sint i) else nat (sint width))"
    using assms by (simp add: clamp_def word_sless_alt scast_nonneg_unat)
  have "int (unat (clamp i width)) \<le> sint width"
    unfolding c using assms by simp
  with c show ?thesis by simp
qed

theorem clamp_into_width_witness:
  "0 \<le> sint (5 :: 32 word) \<and> unat (clamp (-3) 5) = 0 \<and> unat (clamp 3 5) = 3 \<and> unat (clamp 7 5) = 5"
  using clamp_into_width [of 5 "-3"] clamp_into_width [of 5 3] clamp_into_width [of 5 7]
  by simp

text \<open>
  Claim C10. The zero-value rasterizer has size \<open>(0, 0)\<close>, the empty bounds from \<open>(0, 0)\<close>
  to \<open>(0, 0)\<close>, its pen at \<open>(0, 0)\<close> and the operator \<open>Over\<close>.
\<close>
theorem zero_value_usable:
  "Size Rasterizer_zero = \<lparr>X = 0, Y = 0\<rparr>
   \<and> Bounds Rasterizer_zero = \<lparr>Min' = \<lparr>X = 0, Y = 0\<rparr>, Max' = \<lparr>X = 0, Y = 0\<rparr>\<rparr>
   \<and> Pen Rasterizer_zero = (0, 0)
   \<and> DrawOp Rasterizer_zero = Over"
  by (simp add: Size_def Bounds_def Pen_def Rasterizer_zero_def)

text \<open>
  Claim C1. After \<open>Reset(w, h)\<close>, and so after \<open>NewRasterizer(w, h)\<close>, \<open>first\<close> and \<open>pen\<close>
  are the origin, \<open>DrawOp\<close> is \<open>Over\<close>, and every element of the active buffer (\<open>bufF32\<close>
  in floating-point mode, \<open>bufU32\<close> otherwise) is zero.
\<close>
theorem Reset_state:
  assumes "Reset rt w h z = Inr z' \<or> NewRasterizer rt w h = Inr z'"
  shows "first z' = (0, 0) \<and> pen z' = (0, 0) \<and> DrawOp z' = Over
         \<and> (if useFloatingPointMath z' then \<forall>x\<in>set (view (bufF32 z')). x = 0
            else \<forall>x\<in>set (view (bufU32 z')). x = 0)"
proof -
  from assms obtain z0 where r: "Reset rt w h z0 = Inr z'"
    by (auto simp: NewRasterizer_def)
  let ?b = "floatingPointMathThreshold <s w \<or> floatingPointMathThreshold <s h"
  let ?z = "z0\<lparr>size' := \<lparr>X = w, Y = h\<rparr>, first := (0, 0), pen := (0, 0), DrawOp := Over\<rparr>"
  from r have s: "setUseFloatingPointMath rt ?b ?z = Inr z'" by (simp add: Reset_def)
  from setUseFloatingPointMath_frame [OF s] have f: "useFloatingPointMath z' = ?b"
    "first z' = (0, 0)" "pen z' = (0, 0)" "DrawOp z' = Over" by simp_all
  from setUseFloatingPointMath_buf [OF s] f show ?thesis by simp
qed

lemma Reset_dirty:
  "Reset rt 3 2 dirty = Inr (dirty\<lparr>bufU32 := \<lparr>arr = [0, 0, 0, 0, 0, 0, 7], len = 6\<rparr>, size' := \<lparr>X = 3, Y = 2\<rparr>, first := (0, 0), pen := (0, 0), DrawOp := Over\<rparr>)"
  by (simp add: Reset_def setUseFloatingPointMath_def dirty_def Let_def reslice_def cap_def zero_fill_def
      floatingPointMathThreshold_def upt_conv_Cons)

lemma NewRasterizer_3_2:
  "NewRasterizer machine 3 2 =
     Inr (Rasterizer_zero\<lparr>bufU32 := \<lparr>arr = [0, 0, 0, 0, 0, 0], len = 6\<rparr>, size' := \<lparr>X = 3, Y = 2\<rparr>\<rparr>)"
  by (simp add: NewRasterizer_def Reset_def setUseFloatingPointMath_def Rasterizer_zero_def Let_def
      cap_def nil_slice_def make_slice_def machine_def floatingPointMathThreshold_def
      word_sless_alt eval_nat_numeral)

theorem Reset_state_witness:
  "(\<exists>z'. Reset machine 3 2 dirty = Inr z' \<and> first z' = (0, 0) \<and> pen z' = (0, 0) \<and> DrawOp z' = Over
        \<and> \<not> useFloatingPointMath z' \<and> view (bufU32 z') = [0, 0, 0, 0, 0, 0])
   \<and> (\<exists>z'. NewRasterizer machine 3 2 = Inr z' \<and> first z' = (0, 0) \<and> pen z' = (0, 0)
        \<and> DrawOp z' = Over \<and> \<not> useFloatingPointMath z' \<and> view (bufU32 z') = [0, 0, 0, 0, 0, 0])"
proof -
  note a = Reset_state [OF disjI1, OF Reset_dirty [of machine]]
  note b = Reset_state [OF disjI2, OF NewRasterizer_3_2]
  have v: "view \<lparr>arr = [0, 0, 0, 0, 0, 0, 7 :: 32 word], len = 6\<rparr> = [0, 0, 0, 0, 0, 0]"
    "view \<lparr>arr = [0, 0, 0, 0, 0, 0 :: 32 word], len = 6\<rparr> = [0, 0, 0, 0, 0, 0]"
    by (simp_all add: view_def)
  have "\<not> useFloatingPointMath dirty" "\<not> useFloatingPointMath Rasterizer_zero"
    by (simp_all add: dirty_def Rasterizer_zero_def)
  with a b v show ?thesis
    unfolding Reset_dirty NewRasterizer_3_2 by simp
qed

lemma LineTo_first: "first (LineTo K b z) = first z"
  by (simp add: LineTo_def fixedLineTo_def floatingLineTo_def)

text \<open>
  Claim C5. \<open>ClosePath()\<close> has the effect of \<open>LineTo(first)\<close> on the whole state, and
  \<open>moveTo(a); lineTo(b); closePath()\<close> leaves the state that
  \<open>moveTo(a); lineTo(b); lineTo(a)\<close> leaves.
\<close>
theorem ClosePath_LineTo_first:
  "ClosePath K z = LineTo K (first z) z
   \<and> ClosePath K (LineTo K b (MoveTo a z)) = LineTo K a (LineTo K b (MoveTo a z))"
  by (simp add: ClosePath_def LineTo_first MoveTo_def)

lemma Reset_frame:
  assumes "Reset rt w h z = Inr z'"
  shows "useFloatingPointMath z' = (floatingPointMathThreshold <s w \<or> floatingPointMathThreshold <s h)"
    and "size' z' = \<lparr>X = w, Y = h\<rparr>"
  using setUseFloatingPointMath_frame [OF assms [unfolded Reset_def]] by simp_all

lemma Reset_outcome:
  "(Reset rt w h z = Inl SliceBoundsOutOfRange) = (w * h <s 0)"
  "(Reset rt w h z = Inl MakeSliceLenOutOfRange)
     = (int (active_cap w h z) < sint (w * h)
        \<and> (2 ^ 64 \<le> 4 * sint (w * h) \<or> maxAlloc rt < 4 * sint (w * h)))"
  "(Reset rt w h z = Inl OutOfMemory)
     = (int (active_cap w h z) < sint (w * h) \<and> 4 * sint (w * h) < 2 ^ 64
        \<and> 4 * sint (w * h) \<le> maxAlloc rt \<and> heap rt < 4 * sint (w * h))"
  "Reset rt w h z \<noteq> Inl IndexOutOfRange"
  "(\<exists>z'. Reset rt w h z = Inr z')
     = (\<not> w * h <s 0
        \<and> (sint (w * h) \<le> int (active_cap w h z)
           \<or> (4 * sint (w * h) < 2 ^ 64 \<and> 4 * sint (w * h) \<le> maxAlloc rt
              \<and> 4 * sint (w * h) \<le> heap rt)))"
proof -
  let ?b = "floatingPointMathThreshold <s w \<or> floatingPointMathThreshold <s h"
  let ?z = "z\<lparr>size' := \<lparr>X = w, Y = h\<rparr>, first := (0, 0), pen := (0, 0), DrawOp := Over\<rparr>"
  note o = setUseFloatingPointMath_outcome [of rt ?b ?z]
  have c: "int (if ?b then cap (bufF32 ?z) else cap (bufU32 ?z)) = int (active_cap w h z)"
    by (simp add: active_cap_def)
  have n: "X (size' ?z) * Y (size' ?z) = w * h" by simp
  have r: "Reset rt w h z = setUseFloatingPointMath rt ?b ?z" by (simp add: Reset_def)
  show "(Reset rt w h z = Inl SliceBoundsOutOfRange) = (w * h <s 0)"
    unfolding r o(1) n by (simp add: word_sless_alt)
  show "(Reset rt w h z = Inl MakeSliceLenOutOfRange)
     = (int (active_cap w h z) < sint (w * h)
        \<and> (2 ^ 64 \<le> 4 * sint (w * h) \<or> maxAlloc rt < 4 * sint (w * h)))"
    unfolding r o(2) n c ..
  show "(Reset rt w h z = Inl OutOfMemory)
     = (int (active_cap w h z) < sint (w * h) \<and> 4 * sint (w * h) < 2 ^ 64
        \<and> 4 * sint (w * h) \<le> maxAlloc rt \<and> heap rt < 4 * sint (w * h))"
    unfolding r o(3) n c ..
  show "Reset rt w h z \<noteq> Inl IndexOutOfRange"
    unfolding r by (rule o(4))
  show "(\<exists>z'. Reset rt w h z = Inr z')
     = (\<not> w * h <s 0
        \<and> (sint (w * h) \<le> int (active_cap w h z)
           \<or> (4 * sint (w * h) < 2 ^ 64 \<and> 4 * sint (w * h) \<le> maxAlloc rt
              \<and> 4 * sint (w * h) \<le> heap rt)))"
    unfolding r o(5) n c by (auto simp add: word_sless_alt)
qed

lemma Reset_returns:
  assumes "0 \<le> sint w" "0 \<le> sint h" "4 * (sint w * sint h) \<le> maxAlloc rt"
    "4 * (sint w * sint h) \<le> heap rt" "sint w * sint h < 2 ^ 62"
  shows "\<exists>z'. Reset rt w h z = Inr z'"
proof -
  have p: "0 \<le> sint w * sint h" using assms(1,2) by simp
  then have "sint (w * h) = sint w * sint h"
    using assms(5) by (simp add: sint_word_mult signed_take_bit_int_eq_self)
  then have e: "sint (w * h) = sint w * sint h" .
  have k: "(2::int) ^ 64 = 18446744073709551616" "(2::int) ^ 62 = 4611686018427387904"
    by simp_all
  have "\<not> w * h <s 0" unfolding word_sless_alt e using p by simp
  moreover have "4 * sint (w * h) < 2 ^ 64" using assms(5) unfolding e k by linarith
  moreover have "4 * sint (w * h) \<le> maxAlloc rt" "4 * sint (w * h) \<le> heap rt"
    unfolding e by (rule assms(3), rule assms(4))
  ultimately show ?thesis unfolding Reset_outcome(5) by blast
qed

text \<open>
  Claim C4. \<open>Reset(w, h)\<close> selects floating-point math if and only if \<open>w > 2048\<close> or
  \<open>h > 2048\<close>, that is \<open>max(w, h) > 2048\<close>, the threshold being exactly 2048; otherwise it
  selects fixed-point math.
\<close>
theorem Reset_selects_math:
  assumes "Reset rt w h z = Inr z'"
  shows "floatingPointMathThreshold = 2048
         \<and> useFloatingPointMath z' = (2048 < sint w \<or> 2048 < sint h)
         \<and> useFloatingPointMath z' = (2048 < max (sint w) (sint h))"
  using Reset_frame(1) [OF assms]
  by (auto simp: floatingPointMathThreshold_def word_sless_alt)

theorem Reset_selects_math_witness:
  "(\<exists>z'. Reset machine 2049 1 Rasterizer_zero = Inr z' \<and> useFloatingPointMath z')
   \<and> (\<exists>z'. Reset machine 1 2049 dirty = Inr z' \<and> useFloatingPointMath z')
   \<and> (\<exists>z'. Reset machine 2048 2048 Rasterizer_zero = Inr z' \<and> \<not> useFloatingPointMath z')"
proof -
  obtain z1 z2 z3 where
    r: "Reset machine 2049 1 Rasterizer_zero = Inr z1" "Reset machine 1 2049 dirty = Inr z2"
       "Reset machine 2048 2048 Rasterizer_zero = Inr z3"
    using Reset_returns [of 2049 1 machine Rasterizer_zero] Reset_returns [of 1 2049 machine dirty]
      Reset_returns [of 2048 2048 machine Rasterizer_zero]
    by (auto simp: machine_def)
  from Reset_selects_math [OF r(1)] Reset_selects_math [OF r(2)] Reset_selects_math [OF r(3)] r
  show ?thesis by simp
qed

text \<open>
  Claim C7 as stated, that a negative \<open>w\<close> or \<open>h\<close> is rejected, fails: \<open>Reset(-1, -1)\<close> and
  \<open>NewRasterizer(-1, 0)\<close> return, and the rasterizer they leave has the negative size.
\<close>
theorem Reset_negative_size_accepted:
  "(-1 :: go_int) <s 0
   \<and> Reset machine (-1) (-1) Rasterizer_zero =
       Inr (Rasterizer_zero\<lparr>bufU32 := \<lparr>arr = [0], len = 1\<rparr>, size' := \<lparr>X = -1, Y = -1\<rparr>\<rparr>)
   \<and> NewRasterizer machine (-1) 0 = Inr (Rasterizer_zero\<lparr>size' := \<lparr>X = -1, Y = 0\<rparr>\<rparr>)"
  by (simp add: NewRasterizer_def Reset_def setUseFloatingPointMath_def Rasterizer_zero_def Let_def
      reslice_def cap_def zero_fill_def nil_slice_def make_slice_def machine_def
      floatingPointMathThreshold_def word_sless_alt)

text \<open>
  Claim C7, amended. \<open>Reset(w, h)\<close> and \<open>NewRasterizer(w, h)\<close> do not check \<open>w\<close> and \<open>h\<close>.
  With \<open>n = w * h\<close> in wrapping machine arithmetic, the call panics in the reslice of
  \<open>setUseFloatingPointMath\<close> exactly when \<open>n\<close> is negative. When \<open>n\<close> is above the capacity of
  the buffer it turns to, the call allocates and fails exactly when \<open>make\<close> fails: with a
  panic when \<open>4 * n\<close> bytes overflow the machine word or exceed the runtime's largest
  allocation, fatally when the bytes are not available. In every other case, also with
  \<open>w\<close> and \<open>h\<close> both negative or one of them negative and the other zero, it returns and
  the size is \<open>(w, h)\<close> as given. \<open>NewRasterizer\<close> is \<open>Reset\<close> on the zero value, whose
  buffers have capacity 0.
\<close>
theorem Reset_fails_iff:
  "(Reset rt w h z = Inl SliceBoundsOutOfRange) = (w * h <s 0)
   \<and> (Reset rt w h z = Inl MakeSliceLenOutOfRange)
       = (int (active_cap w h z) < sint (w * h)
          \<and> (2 ^ 64 \<le> 4 * sint (w * h) \<or> maxAlloc rt < 4 * sint (w * h)))
   \<and> (Reset rt w h z = Inl OutOfMemory)
       = (int (active_cap w h z) < sint (w * h) \<and> 4 * sint (w * h) < 2 ^ 64
          \<and> 4 * sint (w * h) \<le> maxAlloc rt \<and> heap rt < 4 * sint (w * h))
   \<and> Reset rt w h z \<noteq> Inl IndexOutOfRange
   \<and> (\<exists>z'. Reset rt w h z = Inr z' \<and> Size z' = \<lparr>X = w, Y = h\<rparr>)
       = (\<not> w * h <s 0
          \<and> (sint (w * h) \<le> int (active_cap w h z)
             \<or> (4 * sint (w * h) < 2 ^ 64 \<and> 4 * sint (w * h) \<le> maxAlloc rt
                \<and> 4 * sint (w * h) \<le> heap rt)))
   \<and> NewRasterizer rt w h = Reset rt w h Rasterizer_zero
   \<and> active_cap w h Rasterizer_zero = 0"
proof -
  have "(\<exists>z'. Reset rt w h z = Inr z' \<and> Size z' = \<lparr>X = w, Y = h\<rparr>) = (\<exists>z'. Reset rt w h z = Inr z')"
    using Reset_frame(2) [of rt w h z] by (auto simp: Size_def)
  then show ?thesis
    by (simp add: Reset_outcome NewRasterizer_def active_cap_def Rasterizer_zero_def cap_def
        nil_slice_def)
qed

theorem Reset_fails_iff_witness:
  "Reset machine (-1) 1 Rasterizer_zero = Inl SliceBoundsOutOfRange
   \<and> NewRasterizer machine 3 (-2) = Inl SliceBoundsOutOfRange
   \<and> NewRasterizer machine 2147483648 2147483648 = Inl MakeSliceLenOutOfRange
   \<and> NewRasterizer machine 1048576 1048576 = Inl OutOfMemory
   \<and> (\<exists>z'. Reset machine (-1) (-1) dirty = Inr z' \<and> Size z' = \<lparr>X = -1, Y = -1\<rparr>)
   \<and> (\<exists>z'. NewRasterizer machine 3 2 = Inr z' \<and> Size z' = \<lparr>X = 3, Y = 2\<rparr>)"
  using Reset_fails_iff [of machine "-1" 1 Rasterizer_zero]
    Reset_fails_iff [of machine 3 "-2" Rasterizer_zero]
    Reset_fails_iff [of machine 2147483648 2147483648 Rasterizer_zero]
    Reset_fails_iff [of machine 1048576 1048576 Rasterizer_zero]
    Reset_fails_iff [of machine "-1" "-1" dirty] Reset_fails_iff [of machine 3 2 Rasterizer_zero]
  by (simp add: word_sless_alt machine_def active_cap_def dirty_def cap_def
      floatingPointMathThreshold_def)

section \<open>Properties of drawing\<close>

lemma over_bound:
  fixes S SA D M :: nat
  assumes "S \<le> SA" "SA \<le> 65535" "D \<le> 65535" "M \<le> 65535"
  shows "D * (65535 - SA * M div 65535) + S * M < 65535 * 65536"
proof -
  define Q where "Q = SA * M div 65535"
  have "SA * M \<le> 65535 * 65535" using assms(2,4) by (rule mult_le_mono)
  then have q: "Q \<le> 65535" unfolding Q_def by simp
  have "S * M \<le> SA * M" using assms(1) by (rule mult_le_mono1)
  also have "SA * M < 65535 + Q * 65535" unfolding Q_def by (rule dividend_less_div_times) simp
  finally have s: "S * M < 65535 + Q * 65535" .
  have "D * (65535 - Q) \<le> 65535 * (65535 - Q)" using assms(3) by (rule mult_le_mono1)
  also have "\<dots> = 65535 * 65535 - 65535 * Q" by (simp add: diff_mult_distrib2)
  finally have d: "D * (65535 - Q) \<le> 65535 * 65535 - 65535 * Q" .
  have "65535 * Q \<le> 65535 * 65535" using q by simp
  with s d show ?thesis unfolding Q_def [symmetric] by simp
qed

lemma unat_mul16:
  fixes x y :: "32 word"
  assumes "unat x \<le> 65535" "unat y \<le> 65535"
  shows "unat (x * y) = unat x * unat y"
proof -
  have "unat x * unat y \<le> 65535 * 65535" using assms by (rule mult_le_mono)
  then have "unat x * unat y < 2 ^ LENGTH(32)" by simp
  then show ?thesis by (simp only: unat_mult_lem)
qed

lemma unat_alpha:
  fixes sa ma :: "32 word"
  assumes "unat sa \<le> 65535" "unat ma \<le> 65535"
  shows "unat (0xffff - sa * ma div 0xffff) = 65535 - unat sa * unat ma div 65535"
    and "unat (0xffff - sa * ma div 0xffff) \<le> 65535"
proof -
  have q: "unat (sa * ma div 0xffff) = unat sa * unat ma div 65535"
    by (simp add: unat_div unat_mul16 [OF assms])
  have "unat sa * unat ma \<le> 65535 * 65535" using assms by (rule mult_le_mono)
  then have "unat sa * unat ma div 65535 \<le> 65535" by simp
  then have "sa * ma div 0xffff \<le> (0xffff :: 32 word)" by (simp add: word_le_nat_alt q)
  then show "unat (0xffff - sa * ma div 0xffff) = 65535 - unat sa * unat ma div 65535"
    by (simp add: unat_sub q)
  then show "unat (0xffff - sa * ma div 0xffff) \<le> 65535" by simp
qed

lemma over_channel:
  fixes s sa d ma :: "32 word"
  assumes "unat s \<le> unat sa" "unat sa \<le> 65535" "unat d \<le> 65535" "unat ma \<le> 65535"
  shows "unat (ucast ((d * (0xffff - sa * ma div 0xffff) + s * ma) div 0xffff) :: 16 word) =
           (unat d * (65535 - unat sa * unat ma div 65535) + unat s * unat ma) div 65535"
proof -
  let ?a = "0xffff - sa * ma div 0xffff"
  let ?N = "unat d * (65535 - unat sa * unat ma div 65535) + unat s * unat ma"
  have s: "unat s \<le> 65535" using assms(1,2) by simp
  have b: "?N < 65535 * 65536" using assms by (rule over_bound)
  have m1: "unat (d * ?a) = unat d * (65535 - unat sa * unat ma div 65535)"
    using unat_mul16 [OF assms(3) unat_alpha(2) [OF assms(2,4)]] unat_alpha(1) [OF assms(2,4)] by simp
  have m2: "unat (s * ma) = unat s * unat ma" using s assms(4) by (rule unat_mul16)
  have "unat (d * ?a) + unat (s * ma) < 2 ^ LENGTH(32)" using b by (simp add: m1 m2)
  then have "unat (d * ?a + s * ma) = unat (d * ?a) + unat (s * ma)"
    by (rule unat_add_lem [THEN iffD1])
  then have "unat (d * ?a + s * ma) = ?N" by (simp only: m1 m2)
  then have e: "unat ((d * ?a + s * ma) div 0xffff) = ?N div 65535" by (simp add: unat_div)
  have "?N div 65535 < 65536" using b by simp
  then show ?thesis by (simp add: unsigned_ucast_eq e take_bit_nat_eq_self)
qed

lemma src_channel:
  fixes s ma :: "32 word"
  assumes "unat s \<le> 65535" "unat ma \<le> 65535"
  shows "unat (ucast (s * ma div 0xffff) :: 16 word) = unat s * unat ma div 65535"
proof -
  have e: "unat (s * ma div 0xffff) = unat s * unat ma div 65535"
    by (simp add: unat_div unat_mul16 [OF assms])
  have "unat s * unat ma \<le> 65535 * 65535" using assms by (rule mult_le_mono)
  then have "unat s * unat ma div 65535 < 65536" by simp
  then show ?thesis by (simp add: unsigned_ucast_eq e take_bit_nat_eq_self)
qed

lemma for_range_2: "for_range 2 = [0, 1]"
  by (simp add: for_range_def upt_conv_Cons)

lemma spec_kernels_select:
  "(if haveFixedAccumulateSIMD (spec_kernels alpha K) then fixedAccumulateMaskSIMD (spec_kernels alpha K)
    else fixedAccumulateMask (spec_kernels alpha K)) = spec_accumulateMask alpha"
  "(if haveFixedAccumulateSIMD (spec_kernels alpha K) then fixedAccumulateOpSrcSIMD (spec_kernels alpha K)
    else fixedAccumulateOpSrc (spec_kernels alpha K)) = spec_accumulateOpSrc alpha"
  by (simp_all add: spec_kernels_def)

lemma accumulateMask_fixed:
  "accumulateMask rt (spec_kernels alpha K) (fixed_rasterizer w h buf) =
     Inr (fixed_rasterizer w h (spec_accumulateMask alpha buf))"
  unfolding accumulateMask_def
  by (simp add: spec_kernels_select)
     (simp add: fixed_rasterizer_def Rasterizer_zero_def store_def view_def)

lemma Draw_fused_sub_alpha:
  "Draw rt (spec_kernels alpha K) I (DstAlpha sub_alpha)
      \<lparr>Min' = \<lparr>X = 0, Y = 0\<rparr>, Max' = \<lparr>X = 2, Y = 2\<rparr>\<rparr> opaque sp
      (fixed_rasterizer 2 2 [b0, b1, b2, b3])
   = Inr (fixed_rasterizer 2 2 [b0, b1, b2, b3],
          DstAlpha (sub_alpha\<lparr>Pix :=
            [ucast (drop_bit 8 (alpha [b0, b1, b2, b3] 0)),
             ucast (drop_bit 8 (alpha [b0, b1, b2, b3] 1)),
             ucast (drop_bit 8 (alpha [b0, b1, b2, b3] 2)),
             ucast (drop_bit 8 (alpha [b0, b1, b2, b3] 3)), 0, 0]\<rparr>))"
proof -
  let ?z = "fixed_rasterizer 2 2 [b0, b1, b2, b3]"
  let ?r = "\<lparr>Min' = \<lparr>X = 0, Y = 0\<rparr>, Max' = \<lparr>X = 2, Y = 2\<rparr>\<rparr>"
  have z: "\<not> useFloatingPointMath ?z" "DrawOp ?z = Src" "Bounds ?z = ?r"
    "view (bufU32 ?z) = [b0, b1, b2, b3]"
    by (simp_all add: fixed_rasterizer_def Rasterizer_zero_def Bounds_def view_def)
  have d: "Rect sub_alpha = ?r" "Pix sub_alpha = [0, 0, 0, 0, 0, 0]" by (simp_all add: sub_alpha_def)
  have k: "spec_accumulateOpSrc alpha [0, 0, 0, 0, 0, 0] [b0, b1, b2, b3] =
            [ucast (drop_bit 8 (alpha [b0, b1, b2, b3] 0)),
             ucast (drop_bit 8 (alpha [b0, b1, b2, b3] 1)),
             ucast (drop_bit 8 (alpha [b0, b1, b2, b3] 2)),
             ucast (drop_bit 8 (alpha [b0, b1, b2, b3] 3)), 0, 0]"
    by (simp add: spec_accumulateOpSrc_def upt_conv_Cons numeral_2_eq_2 numeral_3_eq_3)
  have "rasterizeDstAlphaSrcOpaqueOpSrc rt (spec_kernels alpha K) sub_alpha ?r ?z =
          Inr (?z, sub_alpha\<lparr>Pix := spec_accumulateOpSrc alpha [0, 0, 0, 0, 0, 0] [b0, b1, b2, b3]\<rparr>)"
    unfolding rasterizeDstAlphaSrcOpaqueOpSrc_def by (simp add: z d spec_kernels_select)
  then show ?thesis
    unfolding Draw_def opaque_def by (simp add: z k bindE_def)
qed

lemma Draw_staged_sub_alpha:
  "Draw rt (spec_kernels alpha K) I (DstAlpha sub_alpha)
      \<lparr>Min' = \<lparr>X = 0, Y = 0\<rparr>, Max' = \<lparr>X = 2, Y = 2\<rparr>\<rparr> opaque sp
      (fixed_rasterizer 2 3 [b0, b1, b2, b3, b4, b5])
   = Inr (fixed_rasterizer 2 3 (spec_accumulateMask alpha [b0, b1, b2, b3, b4, b5]),
          DstAlpha (sub_alpha\<lparr>Pix :=
            [ucast (drop_bit 8 (alpha [b0, b1, b2, b3, b4, b5] 0)),
             ucast (drop_bit 8 (alpha [b0, b1, b2, b3, b4, b5] 1)), 0,
             ucast (drop_bit 8 (alpha [b0, b1, b2, b3, b4, b5] 2)),
             ucast (drop_bit 8 (alpha [b0, b1, b2, b3, b4, b5] 3)), 0]\<rparr>))"
proof -
  let ?b = "[b0, b1, b2, b3, b4, b5]"
  let ?z = "fixed_rasterizer 2 3 ?b"
  let ?z1 = "fixed_rasterizer 2 3 (spec_accumulateMask alpha ?b)"
  let ?r = "\<lparr>Min' = \<lparr>X = 0, Y = 0\<rparr>, Max' = \<lparr>X = 2, Y = 2\<rparr>\<rparr>"
  have z: "DrawOp ?z = Src" "?r \<noteq> Bounds ?z"
    by (simp_all add: fixed_rasterizer_def Rasterizer_zero_def Bounds_def)
  have z1: "size' ?z1 = \<lparr>X = 2, Y = 3\<rparr>"
    "view (bufU32 ?z1) = [alpha ?b 0, alpha ?b 1, alpha ?b 2, alpha ?b 3, alpha ?b 4, alpha ?b 5]"
    by (simp_all add: fixed_rasterizer_def Rasterizer_zero_def view_def spec_accumulateMask_def
        upt_conv_Cons numeral_2_eq_2 numeral_3_eq_3 eval_nat_numeral)
  have d: "Rect sub_alpha = ?r" "Pix sub_alpha = [0, 0, 0, 0, 0, 0]" "Stride sub_alpha = 3"
    "PixOffset_Alpha sub_alpha 0 0 = 0"
    by (simp_all add: sub_alpha_def PixOffset_Alpha_def)
  have "rasterizeDstAlphaSrcOpaqueOpSrc rt (spec_kernels alpha K) sub_alpha ?r ?z =
          Inr (?z1, sub_alpha\<lparr>Pix :=
            [ucast (drop_bit 8 (alpha ?b 0)), ucast (drop_bit 8 (alpha ?b 1)), 0,
             ucast (drop_bit 8 (alpha ?b 2)), ucast (drop_bit 8 (alpha ?b 3)), 0]\<rparr>)"
    unfolding rasterizeDstAlphaSrcOpaqueOpSrc_def accumulateMask_fixed
    by (simp add: z d z1 bindE_def slice_from_def for_range_2 idx_def upd_def)
  then show ?thesis
    unfolding Draw_def opaque_def by (simp add: z bindE_def)
qed

text \<open>
  The staged path of \<open>rasterizeDstAlphaSrcOpaqueOpSrc\<close>: the two nested loops are one loop
  over the pairs \<open>(y, x)\<close>; when the rows of the rectangle do not overlap in \<open>Pix\<close>
  (\<open>Stride\<close> is at least the width of \<open>r\<close>) every pixel \<open>(x, y)\<close> of the rectangle
  ends with \<open>ma >> 8\<close> for the mask value \<open>ma\<close> at \<open>y * size.X + x\<close>.
\<close>

lemma bindE_Inr: "(bindE m f = Inr b) = (\<exists>a. m = Inr a \<and> f a = Inr b)"
  by (cases m) (simp_all add: bindE_def)

lemma foldE_append: "foldE f (xs @ ys) s = bindE (foldE f xs s) (foldE f ys)"
proof (induction xs arbitrary: s)
  case Nil
  show ?case by (simp add: bindE_def)
next
  case (Cons x xs)
  show ?case by (cases "f x s") (simp_all add: bindE_def Cons.IH)
qed

lemma bindE_cong: "(\<And>a. f a = g a) \<Longrightarrow> bindE m f = bindE m g"
  by (cases m) (simp_all add: bindE_def)

lemma foldE_map: "foldE f (map g xs) s = foldE (\<lambda>x. f (g x)) xs s"
proof (induction xs arbitrary: s)
  case Nil
  show ?case by simp
next
  case (Cons x xs)
  show ?case by (simp del: bindE_Inr) (rule bindE_cong, rule Cons.IH)
qed

lemma foldE_nested:
  "foldE (\<lambda>y. foldE (\<lambda>x. f y x) xs) ys s = foldE (\<lambda>(y, x). f y x) (List.product ys xs) s"
proof (induction ys arbitrary: s)
  case Nil
  show ?case by simp
next
  case (Cons y ys)
  have "foldE (\<lambda>(y, x). f y x) (List.product (y # ys) xs) s =
          bindE (foldE (f y) xs s) (foldE (\<lambda>(y, x). f y x) (List.product ys xs))"
    by (simp add: foldE_append foldE_map)
  also have "\<dots> = bindE (foldE (f y) xs s) (foldE (\<lambda>y. foldE (f y) xs) ys)"
    by (rule bindE_cong) (simp add: Cons.IH)
  finally show ?case by simp
qed

lemma upd_Inr:
  "(upd xs i v = Inr ys) = (0 \<le> sint i \<and> sint i < int (length xs) \<and> ys = xs[nat (sint i) := v])"
  by (auto simp: upd_def)

lemma foldE_writes:
  assumes "foldE (\<lambda>i pix. bindE (g i) (\<lambda>ma. upd pix (t i) (h ma))) js pix = Inr pix'"
    and "distinct (map (\<lambda>i. sint (t i)) js)"
  shows "length pix' = length pix
       \<and> (\<forall>i\<in>set js. 0 \<le> sint (t i) \<and> sint (t i) < int (length pix)
             \<and> (\<exists>ma. g i = Inr ma \<and> pix' ! nat (sint (t i)) = h ma))
       \<and> (\<forall>j. (\<forall>i\<in>set js. nat (sint (t i)) \<noteq> j) \<longrightarrow> pix' ! j = pix ! j)"
  using assms
proof (induction js arbitrary: pix)
  case Nil
  then show ?case by simp
next
  case (Cons i js)
  from Cons.prems(1) obtain ma p1 where
    s: "g i = Inr ma" "upd pix (t i) (h ma) = Inr p1"
    and r: "foldE (\<lambda>i pix. bindE (g i) (\<lambda>ma. upd pix (t i) (h ma))) js p1 = Inr pix'"
    by (auto simp: bindE_Inr)
  from s(2) have b: "0 \<le> sint (t i)" "sint (t i) < int (length pix)"
    and p1: "p1 = pix[nat (sint (t i)) := h ma]"
    by (simp_all add: upd_Inr)
  from Cons.prems(2) have d: "distinct (map (\<lambda>i. sint (t i)) js)"
    "sint (t i) \<notin> (\<lambda>i. sint (t i)) ` set js" by simp_all
  from Cons.IH [OF r d(1)] have ih:
    "length pix' = length p1"
    "\<forall>k\<in>set js. 0 \<le> sint (t k) \<and> sint (t k) < int (length p1)
             \<and> (\<exists>ma. g k = Inr ma \<and> pix' ! nat (sint (t k)) = h ma)"
    "\<forall>j. (\<forall>k\<in>set js. nat (sint (t k)) \<noteq> j) \<longrightarrow> pix' ! j = p1 ! j"
    by simp_all
  have ne: "nat (sint (t k)) \<noteq> nat (sint (t i))" if "k \<in> set js" for k
  proof -
    from that d(2) have "sint (t k) \<noteq> sint (t i)" by (metis image_eqI)
    moreover from ih(2) that have "0 \<le> sint (t k)" by simp
    ultimately show ?thesis using b(1) by simp
  qed
  from ih(3) ne have "pix' ! nat (sint (t i)) = p1 ! nat (sint (t i))" by simp
  also have "\<dots> = h ma" using b by (simp add: p1)
  finally have here: "pix' ! nat (sint (t i)) = h ma" .
  have rest: "pix' ! j = pix ! j" if "\<forall>k\<in>set (i # js). nat (sint (t k)) \<noteq> j" for j
  proof -
    from that ih(3) have "pix' ! j = p1 ! j" by simp
    also from that have "\<dots> = pix ! j" by (simp add: p1)
    finally show ?thesis .
  qed
  show ?case
    using ih(1,2) b s(1) here rest by (auto simp: p1)
qed

lemma index_value:
  assumes "int x < sint (s :: go_int)" "(int y + 1) * sint s < 2 ^ 63"
  shows "sint (of_nat y * s + of_nat x :: go_int) = int y * sint s + int x"
proof -
  let ?S = "sint s"
  have S: "1 \<le> ?S" using assms(1) by simp
  have "int y * ?S \<le> int y * ?S + (?S - int x)" using assms(1) by simp
  have le: "int y * ?S + int x < (int y + 1) * ?S" using assms(1) by (simp add: algebra_simps)
  have "int y * 1 \<le> int y * ?S" using S by (intro mult_left_mono) simp_all
  then have y: "int y < 2 ^ 63" using le assms(2) by simp
  have p0: "0 \<le> int y * ?S" using S by simp
  have x: "int x < 2 ^ 63" using le assms(2) p0 by simp
  have sy: "sint (of_nat y :: go_int) = int y"
    using y by (simp add: signed_of_nat signed_take_bit_int_eq_self)
  have sx: "sint (of_nat x :: go_int) = int x"
    using x by (simp add: signed_of_nat signed_take_bit_int_eq_self)
  have p1: "int y * ?S < 2 ^ 63" using le assms(2) by simp
  have m: "sint (of_nat y * s :: go_int) = int y * ?S"
    using p0 p1 by (simp add: sint_word_mult sy signed_take_bit_int_eq_self)
  have "0 \<le> int y * ?S + int x" using p0 by simp
  moreover have "int y * ?S + int x < 2 ^ 63" using le assms(2) by simp
  ultimately show ?thesis
    by (simp add: sint_word_add m sx signed_take_bit_int_eq_self)
qed

lemma row_major_inj:
  fixes S :: int
  assumes "int x < S" "int x' < S" "int y * S + int x = int y' * S + int x'"
  shows "y = y' \<and> x = x'"
proof -
  have S: "0 < S" using assms(1) by simp
  have "(int y * S + int x) div S = int y" using assms(1) S by simp
  moreover have "(int y' * S + int x') div S = int y'" using assms(2) S by simp
  ultimately have "y = y'" using assms(3) by simp
  with assms(3) show ?thesis by simp
qed

lemma product_for_range:
  "List.product (for_range h) (for_range w) =
     map (\<lambda>(y, x). (of_nat y, of_nat x)) (List.product [0..<nat (sint h)] [0..<nat (sint w)])"
proof -
  have "List.product (map f ys) (map g xs) = map (\<lambda>(y, x). (f y, g x)) (List.product ys xs)"
    for f :: "nat \<Rightarrow> go_int" and g :: "nat \<Rightarrow> go_int" and ys xs
    by (induction ys) (simp_all add: comp_def)
  then show ?thesis by (simp add: for_range_def)
qed

lemma staged_indices_distinct:
  fixes s :: go_int
  assumes "sint w \<le> sint s" "sint s * sint h < 2 ^ 63"
  shows "distinct (map (\<lambda>i. sint (case i of (y, x) \<Rightarrow> y * s + x))
           (List.product (for_range h) (for_range w)))"
proof -
  let ?P = "List.product [0..<nat (sint h)] [0..<nat (sint w)]"
  have v: "sint (of_nat y * s + of_nat x :: go_int) = int y * sint s + int x"
    if "(y, x) \<in> set ?P" for y x
  proof (rule index_value)
    from that have b: "int x < sint w" "int y + 1 \<le> sint h" by auto
    then show "int x < sint s" using assms(1) by simp
    then have "0 \<le> sint s" by simp
    then have "(int y + 1) * sint s \<le> sint h * sint s" using b(2) by (rule mult_right_mono [rotated])
    then show "(int y + 1) * sint s < 2 ^ 63" using assms(2) by (simp add: mult.commute)
  qed
  have "map (\<lambda>i. sint (case i of (y, x) \<Rightarrow> y * s + x)) (List.product (for_range h) (for_range w))
        = map (\<lambda>(y, x). sint (of_nat y * s + of_nat x :: go_int)) ?P"
    by (simp add: product_for_range comp_def case_prod_beta)
  also have "\<dots> = map (\<lambda>(y, x). int y * sint s + int x) ?P"
    by (rule map_cong) (auto simp: v simp del: set_product)
  finally have e: "map (\<lambda>i. sint (case i of (y, x) \<Rightarrow> y * s + x))
      (List.product (for_range h) (for_range w)) = map (\<lambda>(y, x). int y * sint s + int x) ?P" .
  have "inj_on (\<lambda>(y, x). int y * sint s + int x) (set ?P)"
  proof (rule inj_onI, clarify)
    fix y x y' x'
    assume a: "(y, x) \<in> set ?P" "(y', x') \<in> set ?P"
      and q: "int y * sint s + int x = int y' * sint s + int x'"
    from a assms(1) have "int x < sint s" "int x' < sint s" by auto
    from row_major_inj [OF this q] show "y = y' \<and> x = x'" .
  qed
  then show ?thesis unfolding e by (simp add: distinct_map distinct_product)
qed

lemma idx_Inr: "(idx xs i = Inr a) = (0 \<le> sint i \<and> sint i < int (length xs) \<and> a = xs ! nat (sint i))"
  by (auto simp: idx_def)

lemma staged_path_writes_mask:
  assumes staged: "\<not> (r = Rect dst \<and> r = Bounds z)"
    and res: "rasterizeDstAlphaSrcOpaqueOpSrc rt K dst r z = Inr (z1, dst1)"
    and stride: "sint (X (Max' r) - X (Min' r)) \<le> sint (Stride dst)"
      "sint (Stride dst) * sint (Y (Max' r) - Y (Min' r)) < 2 ^ 63"
    and xy: "x < nat (sint (X (Max' r) - X (Min' r)))" "y < nat (sint (Y (Max' r) - Y (Min' r)))"
  shows "accumulateMask rt K z = Inr z1
       \<and> (\<exists>off ma.
            slice_from (Pix dst) (PixOffset_Alpha dst (X (Min' r)) (Y (Min' r))) = Inr off
            \<and> idx (view (bufU32 z1)) (of_nat y * X (size' z1) + of_nat x) = Inr ma
            \<and> Pix dst1 ! (off + (y * nat (sint (Stride dst)) + x)) = ucast (drop_bit 8 ma))"
proof -
  let ?w = "X (Max' r) - X (Min' r)" and ?h = "Y (Max' r) - Y (Min' r)" and ?s = "Stride dst"
  let ?g = "\<lambda>i. case i of (y, x) \<Rightarrow> idx (view (bufU32 z1)) (y * X (size' z1) + x)"
  let ?t = "\<lambda>i. case i of (y, x) \<Rightarrow> y * ?s + x"
  let ?hh = "\<lambda>ma :: 32 word. (ucast (drop_bit 8 ma) :: 8 word)"
  from res staged obtain off pix where
    m: "accumulateMask rt K z = Inr z1"
    and o: "slice_from (Pix dst) (PixOffset_Alpha dst (X (Min' r)) (Y (Min' r))) = Inr off"
    and l: "foldE (\<lambda>y. foldE (\<lambda>x pix.
                  bindE (idx (view (bufU32 z1)) (y * X (size' z1) + x)) (\<lambda>ma.
                  upd pix (y * ?s + x) (ucast (drop_bit 8 ma)))) (for_range ?w))
               (for_range ?h) (drop off (Pix dst)) = Inr pix"
    and d: "dst1 = dst\<lparr>Pix := take off (Pix dst) @ pix\<rparr>"
    unfolding rasterizeDstAlphaSrcOpaqueOpSrc_def by (auto simp: bindE_Inr)
  have f: "(\<lambda>(y, x) pix. bindE (idx (view (bufU32 z1)) (y * X (size' z1) + x)) (\<lambda>ma.
                  upd pix (y * ?s + x) (ucast (drop_bit 8 ma))))
           = (\<lambda>i pix. bindE (?g i) (\<lambda>ma. upd pix (?t i) (?hh ma)))"
    by (auto simp: fun_eq_iff)
  from l have "foldE (\<lambda>i pix. bindE (?g i) (\<lambda>ma. upd pix (?t i) (?hh ma)))
      (List.product (for_range ?h) (for_range ?w)) (drop off (Pix dst)) = Inr pix"
    unfolding foldE_nested f .
  from foldE_writes [OF this staged_indices_distinct [OF stride]]
  have len: "length pix = length (drop off (Pix dst))"
    and wr: "\<forall>i\<in>set (List.product (for_range ?h) (for_range ?w)).
               0 \<le> sint (?t i) \<and> sint (?t i) < int (length (drop off (Pix dst)))
               \<and> (\<exists>ma. ?g i = Inr ma \<and> pix ! nat (sint (?t i)) = ?hh ma)"
    by simp_all
  have "(of_nat y, of_nat x) \<in> set (List.product (for_range ?h) (for_range ?w))"
    using xy by (simp add: for_range_def)
  with wr obtain ma where
    g: "idx (view (bufU32 z1)) (of_nat y * X (size' z1) + of_nat x) = Inr ma"
    and p: "pix ! nat (sint (of_nat y * ?s + of_nat x :: go_int)) = ucast (drop_bit 8 ma)"
    by fastforce
  have b: "int x < sint ?s" using xy(1) stride(1) by simp
  then have s0: "0 \<le> sint ?s" by simp
  have "int y + 1 \<le> sint ?h" using xy(2) by simp
  then have "(int y + 1) * sint ?s \<le> sint ?h * sint ?s" using s0 by (rule mult_right_mono)
  then have "(int y + 1) * sint ?s < 2 ^ 63" using stride(2) by (simp add: mult.commute)
  from index_value [OF b this]
  have "nat (sint (of_nat y * ?s + of_nat x :: go_int)) = y * nat (sint ?s) + x"
    using s0 by (simp add: nat_add_distrib nat_mult_distrib)
  with p have p': "pix ! (y * nat (sint ?s) + x) = ucast (drop_bit 8 ma)" by simp
  from o have "off \<le> length (Pix dst)" by (auto simp: slice_from_def split: if_splits)
  then have "Pix dst1 ! (off + (y * nat (sint ?s) + x)) = pix ! (y * nat (sint ?s) + x)"
    by (simp add: d nth_append)
  with m o g p' show ?thesis by auto
qed

text \<open>
  The fused path hands the kernel \<open>dst.Pix\<close> and the buffer, so the bytes it leaves are the
  same whatever \<open>dst.Stride\<close> is. The kernel of the specification writes byte \<open>i\<close> for
  buffer element \<open>i\<close>.
\<close>

lemma fused_path_any_Stride:
  assumes "r = Rect dst" "r = Bounds z"
  shows "\<exists>p. rasterizeDstAlphaSrcOpaqueOpSrc rt K (dst\<lparr>Stride := s\<rparr>) r z
               = Inr (z, dst\<lparr>Stride := s, Pix := p\<rparr>)
            \<and> rasterizeDstAlphaSrcOpaqueOpSrc rt K (dst\<lparr>Stride := s'\<rparr>) r z
               = Inr (z, dst\<lparr>Stride := s', Pix := p\<rparr>)"
  using assms by (auto simp add: rasterizeDstAlphaSrcOpaqueOpSrc_def)

lemma nth_foldl_update:
  "j < length dst \<Longrightarrow>
     foldl (\<lambda>d i. d[i := f i]) dst js ! j = (if j \<in> set js then f j else dst ! j)"
  by (induction js arbitrary: dst) (simp_all add: nth_list_update)

lemma nth_spec_accumulateOpSrc:
  assumes "i < length src" "length src \<le> length dst"
  shows "spec_accumulateOpSrc alpha dst src ! i = ucast (drop_bit 8 (alpha src i))"
  using assms by (simp add: spec_accumulateOpSrc_def nth_foldl_update)

text \<open>
  Claim C8 at a sub-image destination. With an opaque uniform source, the operator \<open>Src\<close>
  and \<open>r\<close> equal to the bounds of both the destination and the rasterizer, \<open>Draw\<close> takes
  the fused path and hands the kernel \<open>dst.Pix\<close> and the buffer only: the four values
  \<open>alpha >> 8\<close> land in the bytes 0 to 3, whereas the pixels \<open>(0, 1)\<close> and \<open>(1, 1)\<close> of the
  destination are the bytes 3 and 4. With a rasterizer of another size the staged path runs
  and writes the same destination row by row, by its stride.
\<close>
theorem Draw_fused_path_ignores_Stride:
  "Draw rt (spec_kernels alpha K) I (DstAlpha sub_alpha)
      \<lparr>Min' = \<lparr>X = 0, Y = 0\<rparr>, Max' = \<lparr>X = 2, Y = 2\<rparr>\<rparr> opaque sp
      (fixed_rasterizer 2 2 [b0, b1, b2, b3])
   = Inr (fixed_rasterizer 2 2 [b0, b1, b2, b3],
          DstAlpha (sub_alpha\<lparr>Pix :=
            [ucast (drop_bit 8 (alpha [b0, b1, b2, b3] 0)),
             ucast (drop_bit 8 (alpha [b0, b1, b2, b3] 1)),
             ucast (drop_bit 8 (alpha [b0, b1, b2, b3] 2)),
             ucast (drop_bit 8 (alpha [b0, b1, b2, b3] 3)), 0, 0]\<rparr>))
   \<and> PixOffset_Alpha sub_alpha 0 1 = 3
   \<and> PixOffset_Alpha sub_alpha 1 1 = 4
   \<and> Draw rt (spec_kernels alpha K) I (DstAlpha sub_alpha)
      \<lparr>Min' = \<lparr>X = 0, Y = 0\<rparr>, Max' = \<lparr>X = 2, Y = 2\<rparr>\<rparr> opaque sp
      (fixed_rasterizer 2 3 [b0, b1, b2, b3, b4, b5])
   = Inr (fixed_rasterizer 2 3 (spec_accumulateMask alpha [b0, b1, b2, b3, b4, b5]),
          DstAlpha (sub_alpha\<lparr>Pix :=
            [ucast (drop_bit 8 (alpha [b0, b1, b2, b3, b4, b5] 0)),
             ucast (drop_bit 8 (alpha [b0, b1, b2, b3, b4, b5] 1)), 0,
             ucast (drop_bit 8 (alpha [b0, b1, b2, b3, b4, b5] 2)),
             ucast (drop_bit 8 (alpha [b0, b1, b2, b3, b4, b5] 3)), 0]\<rparr>))"
  by (simp add: Draw_fused_sub_alpha Draw_staged_sub_alpha)
     (simp add: PixOffset_Alpha_def sub_alpha_def)

section \<open>Properties of the generic path of Draw\<close>

lemma word16_of_unat: "unat (w :: 16 word) = n \<Longrightarrow> w = of_nat n"
  by (auto simp: of_nat_unat)

lemma Over_amended_bound:
  assumes "S \<le> SA" "SA \<le> 65535" "D \<le> 65535" "M \<le> 65535"
  shows "Over_amended S SA D M < 65536"
proof -
  have "D * (65535 - SA * M div 65535) + S * M < 65535 * 65536" using assms by (rule over_bound)
  then show ?thesis unfolding Over_amended_def by simp
qed

lemma Src_as_stated_bound:
  assumes "S \<le> 65535" "M \<le> 65535"
  shows "Src_as_stated S M < 65536"
proof -
  have "S * M \<le> 65535 * 65535" using assms by (rule mult_le_mono)
  then show ?thesis unfolding Src_as_stated_def by simp
qed

lemma unat_of_nat16: "n < 65536 \<Longrightarrow> unat (of_nat n :: 16 word) = n"
  by (simp add: unat_of_nat)

lemma opOver_out_eq:
  assumes "premultiplied s" "sixteen_bit d" "unat ma \<le> 0xffff"
  shows "opOver_out s d ma = Over_pixel s d ma"
proof -
  obtain sr sg sb sa where s: "s = (sr, sg, sb, sa)" by (cases s)
  obtain dr dg db da where d: "d = (dr, dg, db, da)" by (cases d)
  from assms(1) have p: "unat sr \<le> unat sa" "unat sg \<le> unat sa" "unat sb \<le> unat sa"
    "unat sa \<le> 65535"
    by (simp_all add: premultiplied_def s)
  from assms(2) have q: "unat dr \<le> 65535" "unat dg \<le> 65535" "unat db \<le> 65535" "unat da \<le> 65535"
    by (simp_all add: sixteen_bit_def d)
  from assms(3) have m: "unat ma \<le> 65535" by simp
  note o = over_channel [OF p(1) p(4) q(1) m, THEN word16_of_unat]
    over_channel [OF p(2) p(4) q(2) m, THEN word16_of_unat]
    over_channel [OF p(3) p(4) q(3) m, THEN word16_of_unat]
    over_channel [OF order_refl p(4) q(4) m, THEN word16_of_unat]
  show ?thesis
    unfolding s d opOver_out_def Over_pixel_def Over_amended_def Let_def prod.case
    by (simp only: o)
qed

lemma opSrc_out_eq:
  assumes "sixteen_bit s" "unat ma \<le> 0xffff"
  shows "Src_pixel s d ma = opSrc_out s ma"
proof -
  obtain sr sg sb sa where s: "s = (sr, sg, sb, sa)" by (cases s)
  from assms(1) have p: "unat sr \<le> 65535" "unat sg \<le> 65535" "unat sb \<le> 65535"
    "unat sa \<le> 65535"
    by (simp_all add: sixteen_bit_def s)
  from assms(2) have m: "unat ma \<le> 65535" by simp
  note o = src_channel [OF p(1) m, THEN word16_of_unat] src_channel [OF p(2) m, THEN word16_of_unat]
    src_channel [OF p(3) m, THEN word16_of_unat] src_channel [OF p(4) m, THEN word16_of_unat]
  show ?thesis
    unfolding s opSrc_out_def Src_pixel_def Src_as_stated_def prod.case
    by (simp only: o)
qed

lemma bindE_cong_Inr: "(\<And>a. m = Inr a \<Longrightarrow> f a = g a) \<Longrightarrow> bindE m f = bindE m g"
  by (cases m) (simp_all add: bindE_def)

lemma bindE_idx_cong:
  "(\<And>m. m \<in> set xs \<Longrightarrow> f m = g m) \<Longrightarrow> bindE (idx xs i) f = bindE (idx xs i) g"
  by (auto simp add: idx_def bindE_def)

lemma Draw_generic_path:
  "generic_path src dst \<Longrightarrow> Draw rt K I dst r src sp z = Draw_generic rt K I dst r src sp z"
  by (cases src; cases dst) (auto simp: Draw_def generic_path_def split: prod.splits)

lemma rasterizeOpOver_as_stated:
  assumes "\<And>z1. accumulateMask rt K z = Inr z1 \<Longrightarrow> \<forall>m\<in>set (view (bufU32 z1)). unat m \<le> 0xffff"
    and "\<And>x y. premultiplied (src_At src x y)" and "\<And>d x y. sixteen_bit (At I d x y)"
  shows "rasterizeOpOver rt K I dst r src sp z = generic_path_as_stated Over_pixel rt K I dst r src sp z"
proof -
  have body: "bindE (idx (view (bufU32 z1)) i)
        (\<lambda>ma. Inr (Set I d x y (opOver_out (src_At src x' y') (At I d x y) ma)))
      = bindE (idx (view (bufU32 z1)) i)
        (\<lambda>ma. Inr (Set I d x y (Over_pixel (src_At src x' y') (At I d x y) ma)))"
    if "accumulateMask rt K z = Inr z1" for z1 i d x y x' y'
    using assms(1) [OF that] by (intro bindE_idx_cong) (simp add: opOver_out_eq assms(2,3))
  show ?thesis
    unfolding rasterizeOpOver_def generic_path_as_stated_def Let_def
    by (rule bindE_cong_Inr) (simp add: body)
qed

lemma rasterizeOpSrc_as_stated:
  assumes "\<And>z1. accumulateMask rt K z = Inr z1 \<Longrightarrow> \<forall>m\<in>set (view (bufU32 z1)). unat m \<le> 0xffff"
    and "\<And>x y. sixteen_bit (src_At src x y)"
  shows "rasterizeOpSrc rt K I dst r src sp z = generic_path_as_stated Src_pixel rt K I dst r src sp z"
proof -
  have body: "bindE (idx (view (bufU32 z1)) i)
        (\<lambda>ma. Inr (Set I d x y (opSrc_out (src_At src x' y') ma)))
      = bindE (idx (view (bufU32 z1)) i)
        (\<lambda>ma. Inr (Set I d x y (Src_pixel (src_At src x' y') (At I d x y) ma)))"
    if "accumulateMask rt K z = Inr z1" for z1 i d x y x' y'
    using assms(1) [OF that] by (intro bindE_idx_cong) (simp add: opSrc_out_eq assms(2))
  show ?thesis
    unfolding rasterizeOpSrc_def generic_path_as_stated_def Let_def
    by (rule bindE_cong_Inr) (simp add: body)
qed

lemma accumulateMask_unit:
  "accumulateMask rt (spec_kernels (\<lambda>buf i. c) K) ((fixed_rasterizer 1 1 [b])\<lparr>DrawOp := op\<rparr>) =
     Inr ((fixed_rasterizer 1 1 [c])\<lparr>DrawOp := op\<rparr>)"
  unfolding accumulateMask_def
  by (simp add: fixed_rasterizer_def Rasterizer_zero_def store_def view_def spec_kernels_select
      spec_accumulateMask_def)

lemma for_range_1: "for_range 1 = [0]"
  by (simp add: for_range_def)

lemma generic_path_as_stated_unit:
  "generic_path_as_stated out rt (spec_kernels (\<lambda>buf i. c) K) pixels (DstOther f)
      \<lparr>Min' = \<lparr>X = 0, Y = 0\<rparr>, Max' = \<lparr>X = 1, Y = 1\<rparr>\<rparr> (SrcImage (\<lambda>x y. s)) \<lparr>X = 0, Y = 0\<rparr>
      ((fixed_rasterizer 1 1 [b])\<lparr>DrawOp := op\<rparr>)
   = Inr ((fixed_rasterizer 1 1 [c])\<lparr>DrawOp := op\<rparr>,
          DstOther (f((0, 0) := out s (ucast (R (f (0, 0))), ucast (G (f (0, 0))), ucast (B (f (0, 0))),
                                     ucast (A (f (0, 0)))) c)))"
  unfolding generic_path_as_stated_def accumulateMask_unit
  by (simp add: bindE_def for_range_1 idx_def view_def fixed_rasterizer_def Rasterizer_zero_def
      pixels_def src_At_def)

lemma Draw_generic_unit:
  "Draw rt (spec_kernels (\<lambda>buf i. c) K) pixels (DstOther f)
      \<lparr>Min' = \<lparr>X = 0, Y = 0\<rparr>, Max' = \<lparr>X = 1, Y = 1\<rparr>\<rparr> (SrcImage (\<lambda>x y. s)) \<lparr>X = 0, Y = 0\<rparr>
      ((fixed_rasterizer 1 1 [b])\<lparr>DrawOp := Over\<rparr>)
   = Inr ((fixed_rasterizer 1 1 [c])\<lparr>DrawOp := Over\<rparr>,
          DstOther (f((0, 0) := opOver_out s (ucast (R (f (0, 0))), ucast (G (f (0, 0))), ucast (B (f (0, 0))),
                                     ucast (A (f (0, 0)))) c)))"
  unfolding Draw_def Draw_generic_def rasterizeOpOver_def accumulateMask_unit
  by (simp add: bindE_def for_range_1 idx_def view_def fixed_rasterizer_def Rasterizer_zero_def
      pixels_def src_At_def)

lemma sixteen_bit_pixels: "sixteen_bit (At pixels d x y)"
proof -
  have u: "unat (ucast (w :: 16 word) :: 32 word) \<le> 65535" for w
  proof -
    have "unat w < 2 ^ 16" using unsigned_less [of w] by simp
    then have "unat (ucast w :: 32 word) = unat w" by (simp add: unsigned_ucast_eq take_bit_nat_eq_self)
    with \<open>unat w < 2 ^ 16\<close> show ?thesis by simp
  qed
  show ?thesis by (cases d) (simp_all add: pixels_def sixteen_bit_def u)
qed

lemma Over_as_stated_exact_value: "Over_as_stated_exact 0 1 0xffff 0x8000 = 4294803457 / 65535"
  by (simp add: Over_as_stated_exact_def)

text \<open>
  Claim C6 as stated fails for the operator \<open>Over\<close>. In integer arithmetic: with the source
  channel 1 and source alpha 2, the destination channel 1 and the mask \<open>0x8000\<close>, the source
  computes 1 and the stated formula gives 0; \<open>Draw\<close> on a one-pixel image, through the
  generic path, writes that 1. Nor is the stated formula the source's in exact
  arithmetic: with the source channel 0 and source alpha 1, the destination channel
  \<open>0xffff\<close> and the mask \<open>0x8000\<close>, the source computes \<open>0xffff\<close> and the stated formula
  is below \<open>0xffff\<close>. And with a source that is not premultiplied, the channel \<open>0xffff\<close>
  above the alpha 0, over the destination channel \<open>0xffff\<close> at the mask \<open>0xffff\<close>, the sum
  wraps in \<open>uint32\<close>: the source computes \<open>0xfffc\<close>, and both the stated formula and the
  formula with a single division give \<open>0x1fffe\<close>.
\<close>
theorem Over_formula_counterexample:
  "unat (R (opOver_out (1, 1, 1, 2) (1, 1, 1, 1) 0x8000)) = 1
   \<and> Over_as_stated 1 2 1 0x8000 = 0
   \<and> unat (R (opOver_out (1, 1, 1, 2) (1, 1, 1, 1) 0x8000)) \<noteq> Over_as_stated 1 2 1 0x8000
   \<and> unat (R (opOver_out (0, 0, 0, 1) (0xffff, 0, 0, 0xffff) 0x8000)) = 0xffff
   \<and> \<lfloor>Over_as_stated_exact 0 1 0xffff 0x8000\<rfloor> = 0xfffe
   \<and> (\<forall>K. Draw machine (spec_kernels (\<lambda>buf i. 0x8000) K) pixels
             (DstOther (\<lambda>p. \<lparr>R = 1, G = 1, B = 1, A = 1\<rparr>))
             \<lparr>Min' = \<lparr>X = 0, Y = 0\<rparr>, Max' = \<lparr>X = 1, Y = 1\<rparr>\<rparr> (SrcImage (\<lambda>x y. (1, 1, 1, 2)))
             \<lparr>X = 0, Y = 0\<rparr> ((fixed_rasterizer 1 1 [0])\<lparr>DrawOp := Over\<rparr>)
          = Inr ((fixed_rasterizer 1 1 [0x8000])\<lparr>DrawOp := Over\<rparr>,
                 DstOther ((\<lambda>p. \<lparr>R = 1, G = 1, B = 1, A = 1\<rparr>)((0, 0) := \<lparr>R = 1, G = 1, B = 1, A = 2\<rparr>))))
   \<and> \<not> premultiplied (0xffff, 0, 0, 0)
   \<and> unat (R (opOver_out (0xffff, 0, 0, 0) (0xffff, 0, 0, 0) 0xffff)) = 0xfffc
   \<and> Over_as_stated 0xffff 0 0xffff 0xffff = 0x1fffe
   \<and> Over_amended 0xffff 0 0xffff 0xffff = 0x1fffe"
  by (simp add: Draw_generic_unit opOver_out_def Over_as_stated_def Over_as_stated_exact_value
      floor_eq_iff premultiplied_def Over_amended_def)

text \<open>
  Claim C6, amended. In the generic path of \<open>Draw\<close> (the source not uniform, or the
  destination neither \<open>*image.Alpha\<close> nor \<open>*image.RGBA\<close>, or an \<open>*image.Alpha\<close> with a
  uniform source that is not opaque), with every mask value in \<open>[0, 0xffff]\<close>: under
  \<open>Over\<close>, when every source pixel is alpha-premultiplied with an alpha of 16 bits and the
  destination has 16-bit channels, \<open>Draw\<close> writes to every pixel of \<open>r\<close> the colour whose
  channels are \<open>(dst*(0xffff - src.a*ma/0xffff) + src*ma)/0xffff\<close>, one truncating division
  of the sum; under \<open>Src\<close>, for every source with 16-bit channels, premultiplied or not,
  it writes \<open>src*ma/0xffff\<close>. Both are values of exact integer arithmetic: they fit the
  16 bits of the channel.
\<close>
theorem generic_Draw_formulas:
  assumes "generic_path src dst"
    and "\<forall>z1. accumulateMask rt K z = Inr z1 \<longrightarrow> (\<forall>m\<in>set (view (bufU32 z1)). unat m \<le> 0xffff)"
  shows "(DrawOp z = Over \<and> (\<forall>x y. premultiplied (src_At src x y)) \<and> (\<forall>d x y. sixteen_bit (At I d x y))
            \<longrightarrow> Draw rt K I dst r src sp z = generic_path_as_stated Over_pixel rt K I dst r src sp z)
       \<and> (DrawOp z = Src \<and> (\<forall>x y. sixteen_bit (src_At src x y))
            \<longrightarrow> Draw rt K I dst r src sp z = generic_path_as_stated Src_pixel rt K I dst r src sp z)
       \<and> (premultiplied (sr, sg, sb, sa) \<and> sixteen_bit (dr, dg, db, da) \<and> unat ma \<le> 0xffff
            \<longrightarrow> unat (R (Over_pixel (sr, sg, sb, sa) (dr, dg, db, da) ma))
                  = Over_amended (unat sr) (unat sa) (unat dr) (unat ma)
              \<and> unat (G (Over_pixel (sr, sg, sb, sa) (dr, dg, db, da) ma))
                  = Over_amended (unat sg) (unat sa) (unat dg) (unat ma)
              \<and> unat (B (Over_pixel (sr, sg, sb, sa) (dr, dg, db, da) ma))
                  = Over_amended (unat sb) (unat sa) (unat db) (unat ma)
              \<and> unat (A (Over_pixel (sr, sg, sb, sa) (dr, dg, db, da) ma))
                  = Over_amended (unat sa) (unat sa) (unat da) (unat ma))
       \<and> (sixteen_bit (sr, sg, sb, sa) \<and> unat ma \<le> 0xffff
            \<longrightarrow> unat (R (Src_pixel (sr, sg, sb, sa) (dr, dg, db, da) ma)) = Src_as_stated (unat sr) (unat ma)
              \<and> unat (G (Src_pixel (sr, sg, sb, sa) (dr, dg, db, da) ma)) = Src_as_stated (unat sg) (unat ma)
              \<and> unat (B (Src_pixel (sr, sg, sb, sa) (dr, dg, db, da) ma)) = Src_as_stated (unat sb) (unat ma)
              \<and> unat (A (Src_pixel (sr, sg, sb, sa) (dr, dg, db, da) ma)) = Src_as_stated (unat sa) (unat ma))"
proof (intro conjI impI)
  note g = Draw_generic_path [OF assms(1)]
  have mask: "\<forall>m\<in>set (view (bufU32 z1)). unat m \<le> 0xffff" if "accumulateMask rt K z = Inr z1" for z1
    using assms(2) that by blast
  {
    assume a: "DrawOp z = Over \<and> (\<forall>x y. premultiplied (src_At src x y)) \<and> (\<forall>d x y. sixteen_bit (At I d x y))"
    then have "rasterizeOpOver rt K I dst r src sp z = generic_path_as_stated Over_pixel rt K I dst r src sp z"
      by (intro rasterizeOpOver_as_stated mask) simp_all
    with a show "Draw rt K I dst r src sp z = generic_path_as_stated Over_pixel rt K I dst r src sp z"
      unfolding g Draw_generic_def by simp
  }
  {
    assume a: "DrawOp z = Src \<and> (\<forall>x y. sixteen_bit (src_At src x y))"
    then have "rasterizeOpSrc rt K I dst r src sp z = generic_path_as_stated Src_pixel rt K I dst r src sp z"
      by (intro rasterizeOpSrc_as_stated mask) simp_all
    with a show "Draw rt K I dst r src sp z = generic_path_as_stated Src_pixel rt K I dst r src sp z"
      unfolding g Draw_generic_def by simp
  }
  {
    assume a: "premultiplied (sr, sg, sb, sa) \<and> sixteen_bit (dr, dg, db, da) \<and> unat ma \<le> 0xffff"
    then have p: "unat sr \<le> unat sa" "unat sg \<le> unat sa" "unat sb \<le> unat sa" "unat sa \<le> 65535"
      and q: "unat dr \<le> 65535" "unat dg \<le> 65535" "unat db \<le> 65535" "unat da \<le> 65535"
      and m: "unat ma \<le> 65535"
      by (simp_all add: premultiplied_def sixteen_bit_def)
    note b = Over_amended_bound [OF p(1) p(4) q(1) m] Over_amended_bound [OF p(2) p(4) q(2) m]
      Over_amended_bound [OF p(3) p(4) q(3) m] Over_amended_bound [OF order_refl p(4) q(4) m]
    show "unat (R (Over_pixel (sr, sg, sb, sa) (dr, dg, db, da) ma))
            = Over_amended (unat sr) (unat sa) (unat dr) (unat ma)"
      "unat (G (Over_pixel (sr, sg, sb, sa) (dr, dg, db, da) ma))
            = Over_amended (unat sg) (unat sa) (unat dg) (unat ma)"
      "unat (B (Over_pixel (sr, sg, sb, sa) (dr, dg, db, da) ma))
            = Over_amended (unat sb) (unat sa) (unat db) (unat ma)"
      "unat (A (Over_pixel (sr, sg, sb, sa) (dr, dg, db, da) ma))
            = Over_amended (unat sa) (unat sa) (unat da) (unat ma)"
      by (simp_all add: Over_pixel_def unat_of_nat16 b)
  }
  {
    assume a: "sixteen_bit (sr, sg, sb, sa) \<and> unat ma \<le> 0xffff"
    then have p: "unat sr \<le> 65535" "unat sg \<le> 65535" "unat sb \<le> 65535" "unat sa \<le> 65535"
      and m: "unat ma \<le> 65535"
      by (simp_all add: sixteen_bit_def)
    note b = Src_as_stated_bound [OF p(1) m] Src_as_stated_bound [OF p(2) m]
      Src_as_stated_bound [OF p(3) m] Src_as_stated_bound [OF p(4) m]
    show "unat (R (Src_pixel (sr, sg, sb, sa) (dr, dg, db, da) ma)) = Src_as_stated (unat sr) (unat ma)"
      "unat (G (Src_pixel (sr, sg, sb, sa) (dr, dg, db, da) ma)) = Src_as_stated (unat sg) (unat ma)"
      "unat (B (Src_pixel (sr, sg, sb, sa) (dr, dg, db, da) ma)) = Src_as_stated (unat sb) (unat ma)"
      "unat (A (Src_pixel (sr, sg, sb, sa) (dr, dg, db, da) ma)) = Src_as_stated (unat sa) (unat ma)"
      by (simp_all add: Src_pixel_def unat_of_nat16 b)
  }
qed

theorem generic_Draw_formulas_witness:
  "(\<forall>K. Draw machine (spec_kernels (\<lambda>buf i. 0xffff) K) pixels
          (DstOther (\<lambda>p. \<lparr>R = 0xffff, G = 0, B = 0x1234, A = 0xffff\<rparr>))
          \<lparr>Min' = \<lparr>X = 0, Y = 0\<rparr>, Max' = \<lparr>X = 1, Y = 1\<rparr>\<rparr>
          (SrcImage (\<lambda>x y. (0x4000, 0x2000, 0, 0x8000))) \<lparr>X = 0, Y = 0\<rparr>
          ((fixed_rasterizer 1 1 [0])\<lparr>DrawOp := Over\<rparr>)
       = Inr ((fixed_rasterizer 1 1 [0xffff])\<lparr>DrawOp := Over\<rparr>,
              DstOther ((\<lambda>p. \<lparr>R = 0xffff, G = 0, B = 0x1234, A = 0xffff\<rparr>)
                 ((0, 0) := \<lparr>R = 0xbfff, G = 0x2000, B = 0x0919, A = 0xffff\<rparr>))))
   \<and> (\<forall>K. Draw machine (spec_kernels (\<lambda>buf i. 0x8000) K) pixels
          (DstOther (\<lambda>p. \<lparr>R = 0xffff, G = 0, B = 0x1234, A = 0xffff\<rparr>))
          \<lparr>Min' = \<lparr>X = 0, Y = 0\<rparr>, Max' = \<lparr>X = 1, Y = 1\<rparr>\<rparr>
          (SrcImage (\<lambda>x y. (0xffff, 0x2000, 0, 0x8000))) \<lparr>X = 0, Y = 0\<rparr>
          ((fixed_rasterizer 1 1 [0])\<lparr>DrawOp := Src\<rparr>)
       = Inr ((fixed_rasterizer 1 1 [0x8000])\<lparr>DrawOp := Src\<rparr>,
              DstOther ((\<lambda>p. \<lparr>R = 0xffff, G = 0, B = 0x1234, A = 0xffff\<rparr>)
                 ((0, 0) := \<lparr>R = 0x8000, G = 0x1000, B = 0, A = 0x4000\<rparr>))))
   \<and> \<not> premultiplied (0xffff, 0x2000, 0, 0x8000)
   \<and> unat (R (Over_pixel (0x4000, 0x2000, 0, 0x8000) (0xffff, 0, 0x1234, 0xffff) 0xffff)) = 0xbfff
   \<and> unat (R (Src_pixel (0xffff, 0x2000, 0, 0x8000) (0xffff, 0, 0x1234, 0xffff) 0x8000)) = 0x8000"
proof (intro conjI allI)
  let ?r = "\<lparr>Min' = \<lparr>X = 0, Y = 0\<rparr>, Max' = \<lparr>X = 1, Y = 1\<rparr>\<rparr>"
  let ?f = "\<lambda>p :: go_int \<times> go_int. \<lparr>R = 0xffff, G = 0, B = 0x1234, A = 0xffff\<rparr>"
  let ?sp = "\<lparr>X = 0, Y = 0\<rparr>"
  fix K
  let ?KO = "spec_kernels (\<lambda>buf i. 0xffff) K"
  let ?KS = "spec_kernels (\<lambda>buf i. 0x8000) K"
  let ?so = "SrcImage (\<lambda>x y. (0x4000, 0x2000, 0, 0x8000))"
  let ?ss = "SrcImage (\<lambda>x y. (0xffff, 0x2000, 0, 0x8000))"
  let ?zo = "(fixed_rasterizer 1 1 [0])\<lparr>DrawOp := Over\<rparr>"
  let ?zs = "(fixed_rasterizer 1 1 [0])\<lparr>DrawOp := Src\<rparr>"
  have v: "view (bufU32 (fixed_rasterizer 1 1 [c])) = [c]" for c
    by (simp add: fixed_rasterizer_def Rasterizer_zero_def view_def)
  have d: "DrawOp ((fixed_rasterizer 1 1 [c])\<lparr>DrawOp := op\<rparr>) = op" for c op
    by simp
  have g: "generic_path ?so (DstOther ?f)" "generic_path ?ss (DstOther ?f)"
    by (simp_all add: generic_path_def)
  have mo: "\<forall>z1. accumulateMask machine ?KO ?zo = Inr z1 \<longrightarrow> (\<forall>m\<in>set (view (bufU32 z1)). unat m \<le> 0xffff)"
    unfolding accumulateMask_unit by (simp add: v)
  have ms: "\<forall>z1. accumulateMask machine ?KS ?zs = Inr z1 \<longrightarrow> (\<forall>m\<in>set (view (bufU32 z1)). unat m \<le> 0xffff)"
    unfolding accumulateMask_unit by (simp add: v)
  have po: "\<forall>x y. premultiplied (src_At ?so x y)"
    by (simp add: src_At_def premultiplied_def)
  have ps: "\<forall>x y. sixteen_bit (src_At ?ss x y)"
    by (simp add: src_At_def sixteen_bit_def)
  have pd: "\<forall>d x y. sixteen_bit (At pixels d x y)"
    by (simp add: sixteen_bit_pixels)
  from generic_Draw_formulas [OF g(1) mo, THEN conjunct1, of pixels ?r ?sp] po pd
  show "Draw machine ?KO pixels (DstOther ?f) ?r ?so ?sp ?zo
       = Inr ((fixed_rasterizer 1 1 [0xffff])\<lparr>DrawOp := Over\<rparr>,
              DstOther (?f((0, 0) := \<lparr>R = 0xbfff, G = 0x2000, B = 0x0919, A = 0xffff\<rparr>)))"
    unfolding d generic_path_as_stated_unit by (simp add: Over_pixel_def Over_amended_def)
  from generic_Draw_formulas [OF g(2) ms, THEN conjunct2, THEN conjunct1, of pixels ?r ?sp] ps
  show "Draw machine ?KS pixels (DstOther ?f) ?r ?ss ?sp ?zs
       = Inr ((fixed_rasterizer 1 1 [0x8000])\<lparr>DrawOp := Src\<rparr>,
              DstOther (?f((0, 0) := \<lparr>R = 0x8000, G = 0x1000, B = 0, A = 0x4000\<rparr>)))"
    unfolding d generic_path_as_stated_unit by (simp add: Src_pixel_def Src_as_stated_def)
  show "\<not> premultiplied (0xffff, 0x2000, 0, 0x8000)"
    by (simp add: premultiplied_def)
  show "unat (R (Over_pixel (0x4000, 0x2000, 0, 0x8000) (0xffff, 0, 0x1234, 0xffff) 0xffff)) = 0xbfff"
    by (simp add: Over_pixel_def Over_amended_def)
  show "unat (R (Src_pixel (0xffff, 0x2000, 0, 0x8000) (0xffff, 0, 0x1234, 0xffff) 0x8000)) = 0x8000"
    by (simp add: Src_pixel_def Src_as_stated_def)
qed

end
